theory Spec2Isabelle
  imports Complex_Main "HOL-Library.AList"
begin

section \<open>Text as the server action handles it\<close>

text \<open>
  A JavaScript string is modelled as a \<^typ>\<open>string\<close>, one \<^typ>\<open>char\<close> per code unit:
  the texts of the model are those whose code units are below 256, and the \<^typ>\<open>char\<close>
  \<open>c\<close> stands for the code unit \<open>of_char c\<close>. \<open>indexOf\<close> and \<open>lastIndexOf\<close> return \<open>-1\<close>
  when the pattern does not occur; the model returns \<open>None\<close> there and \<open>Some i\<close> for the
  index \<open>i\<close>.
\<close>

fun startsWith :: "string \<Rightarrow> string \<Rightarrow> bool" where
  "startsWith s [] = True"
| "startsWith [] (p # ps) = False"
| "startsWith (c # cs) (p # ps) = (c = p \<and> startsWith cs ps)"

fun indexOf :: "string \<Rightarrow> string \<Rightarrow> nat option" where
  "indexOf [] pat = (if pat = [] then Some 0 else None)"
| "indexOf (c # cs) pat =
     (if startsWith (c # cs) pat then Some 0 else map_option Suc (indexOf cs pat))"

fun lastIndexOf :: "string \<Rightarrow> string \<Rightarrow> nat option" where
  "lastIndexOf [] pat = (if pat = [] then Some 0 else None)"
| "lastIndexOf (c # cs) pat =
     (case lastIndexOf cs pat of
        Some i \<Rightarrow> Some (Suc i)
      | None \<Rightarrow> if startsWith (c # cs) pat then Some 0 else None)"

definition str_includes :: "string \<Rightarrow> string \<Rightarrow> bool" where
  "str_includes s pat = (indexOf s pat \<noteq> None)"

text \<open>\<open>s.substring(a, b)\<close>: both ends are clamped to the length and swapped when \<open>a > b\<close>.\<close>

definition substring :: "string \<Rightarrow> nat \<Rightarrow> nat \<Rightarrow> string" where
  "substring s a b =
     (let a' = min a (length s); b' = min b (length s);
          lo = min a' b'; hi = max a' b'
      in take (hi - lo) (drop lo s))"

text \<open>
  \<open>trim\<close> removes white space and line terminators at both ends. Among the code units
  below 256 these are tab, line feed, vertical tab, form feed, carriage return, space and
  the no-break space \<open>U+00A0\<close>.
\<close>

definition isSpace :: "char \<Rightarrow> bool" where
  "isSpace c = (c = CHR '' '' \<or> c = CHR 0x09 \<or> c = CHR 0x0A \<or> c = CHR 0x0B
                \<or> c = CHR 0x0C \<or> c = CHR 0x0D \<or> c = CHR 0xA0)"

definition trim :: "string \<Rightarrow> string" where
  "trim s = rev (dropWhile isSpace (rev (dropWhile isSpace s)))"

text \<open>\<open>s.split(sep)\<close> for a one-character separator: always at least one piece.\<close>

fun split :: "char \<Rightarrow> string \<Rightarrow> string list" where
  "split sep [] = [[]]"
| "split sep (c # cs) =
     (if c = sep then [] # split sep cs
      else (case split sep cs of p # ps \<Rightarrow> (c # p) # ps | [] \<Rightarrow> [[c]]))"

section \<open>extractJsonFromStdout\<close>

definition markerStart :: string where
  "markerStart = ''RESULTS_JSON_START''"

definition markerEnd :: string where
  "markerEnd = ''RESULTS_JSON_END''"

text \<open>The function throws \<open>Error("Failed to locate JSON output in Python response")\<close>
  or returns the extracted text; \<open>Inl\<close> carries the message of the error.\<close>

definition extractBraces :: "string \<Rightarrow> string + string" where
  "extractBraces stdout =
     (case (indexOf stdout ''{'', lastIndexOf stdout ''}'') of
        (Some firstBrace, Some lastBrace) \<Rightarrow>
          if lastBrace \<le> firstBrace
          then Inl ''Failed to locate JSON output in Python response''
          else Inr (substring stdout firstBrace (lastBrace + 1))
      | _ \<Rightarrow> Inl ''Failed to locate JSON output in Python response'')"

definition extractJsonFromStdout :: "string \<Rightarrow> string + string" where
  "extractJsonFromStdout stdout =
     (let jsonStart = indexOf stdout markerStart;
          jsonEnd = indexOf stdout markerEnd
      in case (jsonStart, jsonEnd) of
           (Some i, Some j) \<Rightarrow>
             if j > i then Inr (trim (substring stdout (i + length markerStart) j))
             else extractBraces stdout
         | _ \<Rightarrow> extractBraces stdout)"

text \<open>\<open>xs.join(sep)\<close>, also used for \<open>path.join\<close> with the separator \<open>/\<close>.\<close>

fun joinWith :: "string \<Rightarrow> string list \<Rightarrow> string" where
  "joinWith sep [] = []"
| "joinWith sep [x] = x"
| "joinWith sep (x # y # ys) = x @ sep @ joinWith sep (y # ys)"

definition pathJoin :: "string list \<Rightarrow> string" where
  "pathJoin parts = joinWith ''/'' parts"

definition digitChar :: "nat \<Rightarrow> char" where
  "digitChar d = ''0123456789'' ! d"

fun showNat :: "nat \<Rightarrow> string" where
  "showNat n = (if n < 10 then [digitChar n] else showNat (n div 10) @ [digitChar (n mod 10)])"

declare showNat.simps [simp del]

definition showInt :: "int \<Rightarrow> string" where
  "showInt i = (if i < 0 then ''-'' @ showNat (nat (- i)) else showNat (nat i))"

text \<open>\<open>toLowerCase\<close>: among the code units below 256 the capital letters are \<open>A\<close> to
  \<open>Z\<close> and \<open>U+00C0\<close> to \<open>U+00DE\<close> without the multiplication sign \<open>U+00D7\<close>; each has its
  small letter 32 places further.\<close>

definition upperLetters :: string where
  "upperLetters = ''ABCDEFGHIJKLMNOPQRSTUVWXYZ'' @
     [CHR 0xC0, CHR 0xC1, CHR 0xC2, CHR 0xC3, CHR 0xC4, CHR 0xC5,
      CHR 0xC6, CHR 0xC7, CHR 0xC8, CHR 0xC9, CHR 0xCA, CHR 0xCB, CHR 0xCC,
      CHR 0xCD, CHR 0xCE, CHR 0xCF, CHR 0xD0, CHR 0xD1, CHR 0xD2, CHR 0xD3,
      CHR 0xD4, CHR 0xD5, CHR 0xD6, CHR 0xD8, CHR 0xD9, CHR 0xDA, CHR 0xDB,
      CHR 0xDC, CHR 0xDD, CHR 0xDE]"

definition lowerLetters :: string where
  "lowerLetters = ''abcdefghijklmnopqrstuvwxyz'' @
     [CHR 0xE0, CHR 0xE1, CHR 0xE2, CHR 0xE3, CHR 0xE4, CHR 0xE5,
      CHR 0xE6, CHR 0xE7, CHR 0xE8, CHR 0xE9, CHR 0xEA, CHR 0xEB, CHR 0xEC,
      CHR 0xED, CHR 0xEE, CHR 0xEF, CHR 0xF0, CHR 0xF1, CHR 0xF2, CHR 0xF3,
      CHR 0xF4, CHR 0xF5, CHR 0xF6, CHR 0xF8, CHR 0xF9, CHR 0xFA, CHR 0xFB,
      CHR 0xFC, CHR 0xFD, CHR 0xFE]"

definition lowerChar :: "char \<Rightarrow> char" where
  "lowerChar c =
     (case map_of (zip upperLetters lowerLetters) c of
        Some l \<Rightarrow> l
      | None \<Rightarrow> c)"

definition toLowerCase :: "string \<Rightarrow> string" where
  "toLowerCase s = map lowerChar s"

section \<open>JavaScript values\<close>

text \<open>
  The results of the Python pipeline and the precomputed files reach the code through
  \<open>JSON.parse\<close> and are typed \<open>any\<close>. A number is a finite value, \<open>NaN\<close> or one of the
  two infinities. An object is the list of its own
  properties in enumeration order.
\<close>

datatype jsnum = Fin real | NaN | PosInf | NegInf

datatype js =
    JUndef
  | JNull
  | JBool bool
  | JNum jsnum
  | JStr string
  | JArr "js list"
  | JObj "(string \<times> js) list"

fun truthy :: "js \<Rightarrow> bool" where
  "truthy JUndef = False"
| "truthy JNull = False"
| "truthy (JBool b) = b"
| "truthy (JNum (Fin r)) = (r \<noteq> 0)"
| "truthy (JNum NaN) = False"
| "truthy (JNum PosInf) = True"
| "truthy (JNum NegInf) = True"
| "truthy (JStr s) = (s \<noteq> [])"
| "truthy (JArr xs) = True"
| "truthy (JObj kvs) = True"

fun nullish :: "js \<Rightarrow> bool" where
  "nullish JUndef = True"
| "nullish JNull = True"
| "nullish v = False"

text \<open>\<open>a ?? b\<close> and \<open>a || b\<close>.\<close>

definition coalesce :: "js \<Rightarrow> js \<Rightarrow> js" where
  "coalesce a b = (if nullish a then b else a)"

definition orElse :: "js \<Rightarrow> js \<Rightarrow> js" where
  "orElse a b = (if truthy a then a else b)"

fun isRecord :: "js \<Rightarrow> bool" where
  "isRecord (JObj kvs) = True"
| "isRecord v = False"

fun isNumber :: "js \<Rightarrow> bool" where
  "isNumber (JNum n) = True"
| "isNumber v = False"

text \<open>The own enumerable properties of a value, as \<open>Object.keys\<close>, \<open>Object.entries\<close>
  and object spread see them: the members of an object, the elements of an array and
  the characters of a string under their indices, nothing for the other values.\<close>

fun ownEntries :: "js \<Rightarrow> (string \<times> js) list" where
  "ownEntries (JObj kvs) = kvs"
| "ownEntries (JArr xs) = zip (map showNat [0..<length xs]) xs"
| "ownEntries (JStr s) = zip (map showNat [0..<length s]) (map (\<lambda>c. JStr [c]) s)"
| "ownEntries v = []"

definition keys :: "js \<Rightarrow> string list" where
  "keys v = map fst (ownEntries v)"

text \<open>
  Reading a property. Every name the code reads is either an own key obtained from
  \<open>Object.keys\<close> or one of the fixed field names of the payload, none of which is
  inherited from a prototype, so the value is the own property or \<open>undefined\<close>.
  \<open>get\<close> is the optional access \<open>v?.[k]\<close>; \<open>strictGet\<close> is \<open>v[k]\<close>, which throws a
  \<open>TypeError\<close> (\<open>None\<close>) when \<open>v\<close> is \<open>null\<close> or \<open>undefined\<close>.
\<close>

definition get :: "js \<Rightarrow> string \<Rightarrow> js" where
  "get v k = (case map_of (ownEntries v) k of Some x \<Rightarrow> x | None \<Rightarrow> JUndef)"

definition strictGet :: "js \<Rightarrow> string \<Rightarrow> js option" where
  "strictGet v k = (if nullish v then None else Some (get v k))"

text \<open>\<open>obj[k] = v\<close> on a plain object under construction. For the name \<open>__proto__\<close>
  the assignment runs the setter inherited from \<open>Object.prototype\<close>: it changes the
  prototype at most and adds no own property.\<close>

definition setProp :: "(string \<times> js) list \<Rightarrow> string \<Rightarrow> js \<Rightarrow> (string \<times> js) list" where
  "setProp kvs k v = (if k = ''__proto__'' then kvs else AList.update k v kvs)"

section \<open>The world outside the module\<close>

text \<open>
  The file system, the built-in functions whose result the code only passes on, and the
  process environment. An operation that can throw returns \<open>Inl\<close> with the message of
  the error (or \<open>None\<close> where the message is never used). \<open>numberEnv name\<close> is
  \<open>Number(process.env[name])\<close> when the variable is set and not empty, \<open>None\<close> otherwise.
  \<open>fl x\<close> is the number that double arithmetic returns for an operation whose exact result
  is \<open>x\<close>: the nearest double, or an infinity on overflow.
\<close>

datatype event =
    Timeout
  | StdoutData string
  | StderrData string
  | Close "int option"
  | ProcError string

record env =
  cwd :: string
  existsSync :: "string \<Rightarrow> bool"
  readFileSync :: "string \<Rightarrow> string + string"
  statSize :: "string \<Rightarrow> string + nat"
  jsonParse :: "string \<Rightarrow> js option"
  childEvents :: "string \<Rightarrow> string list \<Rightarrow> event list"
  coerceNumber :: "js \<Rightarrow> jsnum"
  toFixed1 :: "real \<Rightarrow> string"
  numberToString :: "real \<Rightarrow> string"
  numberEnv :: "string \<Rightarrow> jsnum option"
  fl :: "real \<Rightarrow> jsnum"

text \<open>\<open>Number(v)\<close>: the conversion of strings, arrays and objects is the built-in
  \<open>coerceNumber\<close>.\<close>

fun toNumber :: "env \<Rightarrow> js \<Rightarrow> jsnum" where
  "toNumber e (JNum n) = n"
| "toNumber e JUndef = NaN"
| "toNumber e JNull = Fin 0"
| "toNumber e (JBool b) = Fin (if b then 1 else 0)"
| "toNumber e v = coerceNumber e v"

subsection \<open>Arithmetic\<close>

text \<open>\<open>a - b\<close>, \<open>a * b\<close> and \<open>Math.max(a, b)\<close> on numbers. On finite operands the exact
  result is rounded by \<open>fl\<close>; \<open>Math.max\<close> rounds nothing. The sign of zero plays no part
  in what follows and is not kept.\<close>

fun num_sub :: "env \<Rightarrow> jsnum \<Rightarrow> jsnum \<Rightarrow> jsnum" where
  "num_sub e (Fin a) (Fin b) = fl e (a - b)"
| "num_sub e NaN y = NaN"
| "num_sub e x NaN = NaN"
| "num_sub e PosInf PosInf = NaN"
| "num_sub e NegInf NegInf = NaN"
| "num_sub e PosInf y = PosInf"
| "num_sub e NegInf y = NegInf"
| "num_sub e (Fin a) PosInf = NegInf"
| "num_sub e (Fin a) NegInf = PosInf"

definition infinityTimes :: "bool \<Rightarrow> real \<Rightarrow> jsnum" where
  "infinityTimes positive b =
     (if b = 0 then NaN else if (0 < b) = positive then PosInf else NegInf)"

fun num_mul :: "env \<Rightarrow> jsnum \<Rightarrow> jsnum \<Rightarrow> jsnum" where
  "num_mul e (Fin a) (Fin b) = fl e (a * b)"
| "num_mul e NaN y = NaN"
| "num_mul e x NaN = NaN"
| "num_mul e PosInf (Fin b) = infinityTimes True b"
| "num_mul e NegInf (Fin b) = infinityTimes False b"
| "num_mul e (Fin a) PosInf = infinityTimes True a"
| "num_mul e (Fin a) NegInf = infinityTimes False a"
| "num_mul e PosInf PosInf = PosInf"
| "num_mul e NegInf NegInf = PosInf"
| "num_mul e PosInf NegInf = NegInf"
| "num_mul e NegInf PosInf = NegInf"

fun num_max :: "jsnum \<Rightarrow> jsnum \<Rightarrow> jsnum" where
  "num_max (Fin a) (Fin b) = Fin (max a b)"
| "num_max NaN y = NaN"
| "num_max x NaN = NaN"
| "num_max PosInf y = PosInf"
| "num_max x PosInf = PosInf"
| "num_max NegInf y = y"
| "num_max x NegInf = x"

text \<open>\<open>getNumberEnv\<close> and the three limits computed from it when the module is
  loaded.\<close>

definition getNumberEnv :: "env \<Rightarrow> string \<Rightarrow> real \<Rightarrow> real" where
  "getNumberEnv e name fallback =
     (case numberEnv e name of
        None \<Rightarrow> fallback
      | Some (Fin parsed) \<Rightarrow> if parsed \<le> 0 then fallback else parsed
      | Some notFinite \<Rightarrow> fallback)"

definition PYTHON_TIMEOUT_MS :: "env \<Rightarrow> real" where
  "PYTHON_TIMEOUT_MS e = getNumberEnv e ''PYTHON_TIMEOUT_MS'' 120000"

definition MAX_DATASET_FILE_SIZE_BYTES :: "env \<Rightarrow> real" where
  "MAX_DATASET_FILE_SIZE_BYTES e = getNumberEnv e ''MAX_DATASET_MB'' 5 * 1024 * 1024"

definition PYTHON_STDOUT_MAX_BYTES :: "env \<Rightarrow> real" where
  "PYTHON_STDOUT_MAX_BYTES e = getNumberEnv e ''PYTHON_STDOUT_MAX_MB'' 5 * 1024 * 1024"

datatype effect =
    Exists string
  | ReadFile string
  | Stat string
  | Spawn string "string list"

section \<open>executePythonScript\<close>

text \<open>
  The promise returned by \<open>executePythonScript\<close> is driven by five callbacks: the timer
  and the \<open>data\<close>, \<open>close\<close> and \<open>error\<close> events of the child. The state holds the
  variables the callbacks share; \<open>settled\<close> records every call of \<open>resolve\<close> or \<open>reject\<close>
  in order, \<open>kills\<close> counts the calls of \<open>pythonProcess.kill\<close>.
\<close>

datatype outcome = Resolved string | Rejected string

record pstate =
  stdout :: string
  stderr :: string
  completed :: bool
  settled :: "outcome list"
  kills :: nat
  timerCleared :: bool

definition initial :: pstate where
  "initial = \<lparr>stdout = [], stderr = [], completed = False, settled = [], kills = 0,
              timerCleared = False\<rparr>"

text \<open>The text of the exit code in the message: \<open>close\<close> reports \<open>null\<close> for a child
  ended by a signal.\<close>

definition showCode :: "int option \<Rightarrow> string" where
  "showCode code = (case code of None \<Rightarrow> ''null'' | Some c \<Rightarrow> showInt c)"

fun handle :: "env \<Rightarrow> pstate \<Rightarrow> event \<Rightarrow> pstate" where
  "handle e st Timeout =
     (if completed st then st
      else st\<lparr>kills := kills st + 1, completed := True,
              settled := settled st @
                [Rejected (''Python script timed out after '' @
                           numberToString e (PYTHON_TIMEOUT_MS e) @ '' ms'')]\<rparr>)"
| "handle e st (StdoutData d) =
     (if completed st then st
      else let out = stdout st @ d in
        if real (length out) > PYTHON_STDOUT_MAX_BYTES e
        then st\<lparr>stdout := out, kills := kills st + 1, timerCleared := True, completed := True,
                settled := settled st @
                  [Rejected ''Python script output exceeded allowed size limit'']\<rparr>
        else st\<lparr>stdout := out\<rparr>)"
| "handle e st (StderrData d) =
     (if completed st then st else st\<lparr>stderr := stderr st @ d\<rparr>)"
| "handle e st (Close code) =
     (if completed st then st
      else if code \<noteq> Some 0
        then st\<lparr>completed := True, timerCleared := True,
                settled := settled st @
                  [Rejected (''Python script exited with code '' @ showCode code @ '': '' @
                     (if stderr st = [] then ''No stderr output'' else stderr st))]\<rparr>
        else st\<lparr>completed := True, timerCleared := True,
                settled := settled st @ [Resolved (stdout st)]\<rparr>)"
| "handle e st (ProcError msg) =
     (if completed st then st
      else st\<lparr>completed := True, timerCleared := True,
              settled := settled st @ [Rejected (''Failed to start Python process: '' @ msg)]\<rparr>)"

definition run :: "env \<Rightarrow> event list \<Rightarrow> pstate" where
  "run e evs = foldl (handle e) initial evs"

text \<open>
  The events of one call are what the child does, in the order the callbacks run. The
  timer was set when the promise was created and fires unless it was cleared, so a run in
  which nothing else completed ends with the timeout. The promise takes the first
  settlement.
\<close>

definition executePythonScript :: "env \<Rightarrow> event list \<Rightarrow> pstate" where
  "executePythonScript e evs = run e (evs @ [Timeout])"

definition promised :: "pstate \<Rightarrow> outcome option" where
  "promised st = (case settled st of [] \<Rightarrow> None | x # xs \<Rightarrow> Some x)"

text \<open>What the events before a point have written to the two streams.\<close>

fun stdoutOf :: "event list \<Rightarrow> string" where
  "stdoutOf [] = []"
| "stdoutOf (StdoutData d # evs) = d @ stdoutOf evs"
| "stdoutOf (ev # evs) = stdoutOf evs"

fun stderrOf :: "event list \<Rightarrow> string" where
  "stderrOf [] = []"
| "stderrOf (StderrData d # evs) = d @ stderrOf evs"
| "stderrOf (ev # evs) = stderrOf evs"

fun isData :: "event \<Rightarrow> bool" where
  "isData (StdoutData d) = True"
| "isData (StderrData d) = True"
| "isData ev = False"

text \<open>A stretch of events that completes nothing: only output, within the limit.\<close>

definition quiet :: "env \<Rightarrow> event list \<Rightarrow> bool" where
  "quiet e evs = (list_all isData evs \<and> real (length (stdoutOf evs)) \<le> PYTHON_STDOUT_MAX_BYTES e)"

text \<open>The number of bytes of a text in UTF-8, the encoding of the pipe: one byte for a
  code unit below 128, two for the others below 256.\<close>

definition utf8Length :: "string \<Rightarrow> nat" where
  "utf8Length s = sum_list (map (\<lambda>c. if (of_char c :: nat) < 128 then 1 else 2) s)"

section \<open>processDataset\<close>

definition ALLOWED_DATASETS :: "string list" where
  "ALLOWED_DATASETS = [''automobile'', ''concrete'', ''loan'']"

definition ALLOWED_META_LEARNERS :: "string list" where
  "ALLOWED_META_LEARNERS = [''linear'', ''random_forest'', ''xgboost'']"

definition isValidDataset :: "string \<Rightarrow> bool" where
  "isValidDataset dataset = (dataset \<in> set ALLOWED_DATASETS)"

definition isValidMetaLearner :: "string \<Rightarrow> bool" where
  "isValidMetaLearner metaLearner = (metaLearner \<in> set ALLOWED_META_LEARNERS)"

definition DATASET_FILES :: "(string \<times> string) list" where
  "DATASET_FILES = [(''automobile'', ''Automobile.csv''), (''concrete'', ''Concrete.csv''),
                    (''loan'', ''Loan Approval.csv'')]"

text \<open>The two shapes the server actions return: \<open>{ success: true, data }\<close> and
  \<open>{ success: false, error }\<close>.\<close>

datatype result = Success js | Failure string

text \<open>\<open>ensureDatasetInfo\<close> throws unless \<open>results.dataset_info\<close> is a record.\<close>

definition ensureDatasetInfo :: "js \<Rightarrow> string + unit" where
  "ensureDatasetInfo results =
     (if \<not> isRecord (get results ''dataset_info'')
      then Inl ''Python results missing dataset_info'' else Inr ())"

subsection \<open>The precomputed results\<close>

text \<open>
  The body of the inner \<open>try\<close> once both files are parsed. \<open>None\<close> stands for both ways of
  leaving it without a result: the condition is false, or a property of \<open>null\<close> or
  \<open>undefined\<close> is read and the \<open>TypeError\<close> is caught.
\<close>

definition combinePrecomputed :: "js \<Rightarrow> js \<Rightarrow> js option" where
  "combinePrecomputed votingData stackingData =
     (case strictGet votingData ''success'' of
        None \<Rightarrow> None
      | Some vs \<Rightarrow>
          if \<not> truthy vs then None
          else (case strictGet stackingData ''success'' of
             None \<Rightarrow> None
           | Some ss \<Rightarrow>
               if \<not> truthy ss then None
               else (case strictGet (get votingData ''data'') ''voting'' of
                  None \<Rightarrow> None
                | Some v \<Rightarrow>
                    (case strictGet (get stackingData ''data'') ''stacking'' of
                       None \<Rightarrow> None
                     | Some s \<Rightarrow>
                         Some (JObj
                           [(''voting'', v),
                            (''stacking'', s),
                            (''dataset_info'',
                               orElse (get (get votingData ''data'') ''dataset_info'')
                                      (get (get stackingData ''data'') ''dataset_info''))])))))"

definition votingFile :: "env \<Rightarrow> string \<Rightarrow> string" where
  "votingFile e datasetId =
     pathJoin [pathJoin [cwd e, ''public'', ''precomputed-results''], datasetId @ ''-voting.json'']"

definition stackingFile :: "env \<Rightarrow> string \<Rightarrow> string \<Rightarrow> string" where
  "stackingFile e datasetId metaLearner =
     pathJoin [pathJoin [cwd e, ''public'', ''precomputed-results''],
               datasetId @ ''-stacking-'' @ metaLearner @ ''.json'']"

text \<open>\<open>JSON.parse(readFileSync(file, "utf-8"))\<close>; either call may throw.\<close>

definition readJson :: "env \<Rightarrow> string \<Rightarrow> js option" where
  "readJson e file = (case readFileSync e file of Inl msg \<Rightarrow> None | Inr text \<Rightarrow> jsonParse e text)"

text \<open>The first stage: the combined results when the precomputed files serve the
  request, and the file operations performed.\<close>

definition loadPrecomputed :: "env \<Rightarrow> string \<Rightarrow> string \<Rightarrow> js option \<times> effect list" where
  "loadPrecomputed e datasetId metaLearner =
     (let vf = votingFile e datasetId; sf = stackingFile e datasetId metaLearner in
      if \<not> existsSync e vf then (None, [Exists vf])
      else if \<not> existsSync e sf then (None, [Exists vf, Exists sf])
      else (case readJson e vf of
              None \<Rightarrow> (None, [Exists vf, Exists sf, ReadFile vf])
            | Some votingData \<Rightarrow>
                (case readJson e sf of
                   None \<Rightarrow> (None, [Exists vf, Exists sf, ReadFile vf, ReadFile sf])
                 | Some stackingData \<Rightarrow>
                     (combinePrecomputed votingData stackingData,
                      [Exists vf, Exists sf, ReadFile vf, ReadFile sf]))))"

subsection \<open>Normalising the results of the pipeline\<close>

definition metricsEntry :: "js \<Rightarrow> js" where
  "metricsEntry m =
     JObj [(''accuracy'', coalesce (get m ''accuracy'') (JNum (Fin 0))),
           (''precision'', coalesce (get m ''precision'') (JNum (Fin 0))),
           (''recall'', coalesce (get m ''recall'') (JNum (Fin 0))),
           (''f1_score'', coalesce (get m ''f1_score'') (JNum (Fin 0)))]"

definition mapBaseStep :: "js \<Rightarrow> (string \<times> js) list \<Rightarrow> string \<Rightarrow> (string \<times> js) list" where
  "mapBaseStep metricsObj out key =
     (if str_includes (toLowerCase key) ''ensemble'' then out
      else setProp out key (metricsEntry (get metricsObj key)))"

definition mapBase :: "js \<Rightarrow> (string \<times> js) list" where
  "mapBase metricsObj = foldl (mapBaseStep metricsObj) [] (keys (orElse metricsObj (JObj [])))"

definition bestBase :: "env \<Rightarrow> (string \<times> js) list \<Rightarrow> jsnum" where
  "bestBase e base =
     (let vals = map (\<lambda>m. orElse (get m ''accuracy'') (JNum (Fin 0))) (map snd base) in
      case vals of
        [] \<Rightarrow> Fin 0
      | v # vs \<Rightarrow> foldl num_max (toNumber e v) (map (toNumber e) vs))"

definition impRaw :: "env \<Rightarrow> js \<Rightarrow> (string \<times> js) list \<Rightarrow> jsnum" where
  "impRaw e ensemble base =
     (if get ensemble ''accuracy'' \<noteq> JUndef
      then num_mul e (num_sub e (toNumber e (get ensemble ''accuracy'')) (bestBase e base))
             (Fin 100)
      else Fin 0)"

definition fmtImp :: "env \<Rightarrow> jsnum \<Rightarrow> string" where
  "fmtImp e x = (case x of Fin v \<Rightarrow> toFixed1 e v @ ''%'' | notFinite \<Rightarrow> ''0%'')"

definition performance :: "env \<Rightarrow> js \<Rightarrow> (string \<times> js) list \<Rightarrow> js" where
  "performance e ensemble base =
     JObj [(''accuracy'', coalesce (get ensemble ''accuracy'') (JNum (Fin 0))),
           (''precision'', coalesce (get ensemble ''precision'') (JNum (Fin 0))),
           (''recall'', coalesce (get ensemble ''recall'') (JNum (Fin 0))),
           (''f1_score'', coalesce (get ensemble ''f1_score'') (JNum (Fin 0))),
           (''improvement_over_best_base'', JStr (fmtImp e (impRaw e ensemble base))),
           (''raw_improvement'', JNum (impRaw e ensemble base))]"

definition votingOf :: "js \<Rightarrow> js" where
  "votingOf pythonResults =
     orElse (get pythonResults ''voting'')
            (orElse (get (get pythonResults ''ensembles'') ''voting'') (JObj []))"

definition stackingOf :: "js \<Rightarrow> js" where
  "stackingOf pythonResults =
     orElse (get pythonResults ''stacking'')
            (orElse (get (get pythonResults ''ensembles'') ''stacking'') (JObj []))"

definition metricsOf :: "js \<Rightarrow> js" where
  "metricsOf method = orElse (get method ''metrics'') (orElse (get method ''base_models'') (JObj []))"

definition targetVariable :: "string \<Rightarrow> string list \<Rightarrow> string" where
  "targetVariable datasetId headers =
     (if datasetId = ''automobile'' then ''mpg''
      else if datasetId = ''concrete'' then ''concrete_compressive_strength''
      else last headers)"

definition regressionResults :: "string \<Rightarrow> string list \<Rightarrow> js \<Rightarrow> js" where
  "regressionResults datasetId headers pythonResults =
     (let info = get pythonResults ''dataset_info'' in
      JObj [(''voting'', get pythonResults ''voting''),
            (''stacking'', get pythonResults ''stacking''),
            (''dataset_info'', JObj
               [(''dataset_id'', JStr datasetId),
                (''n_samples'', get info ''n_samples''),
                (''n_features'', get info ''n_features''),
                (''feature_names'', get info ''feature_names''),
                (''is_classification'', orElse (get info ''is_classification'') (JBool False)),
                (''n_classes'', orElse (get info ''n_classes'') JNull),
                (''class_names'', orElse (get info ''class_names'') JNull),
                (''task_type'', JStr (if truthy (get info ''is_classification'')
                                      then ''classification'' else ''regression'')),
                (''target_variable'', JStr (targetVariable datasetId headers))])])"

definition classificationResults ::
    "env \<Rightarrow> string \<Rightarrow> string list \<Rightarrow> nat \<Rightarrow> js \<Rightarrow> js" where
  "classificationResults e datasetId headers n_samples pythonResults =
     (let voting = votingOf pythonResults;
          stacking = stackingOf pythonResults;
          votingMetrics = metricsOf voting;
          stackingMetrics = metricsOf stacking;
          votingBase = mapBase votingMetrics;
          votingEnsemble = orElse (get votingMetrics ''Voting Ensemble'') (JObj []);
          stackingBase = mapBase stackingMetrics;
          stackingEnsemble = orElse (get stackingMetrics ''Stacking Ensemble'') (JObj []);
          info = get pythonResults ''dataset_info''
      in JObj
        [(''voting'', JObj
            [(''algorithm'', JStr ''Voting Classifier''),
             (''base_models'', JObj votingBase),
             (''ensemble_performance'', performance e votingEnsemble votingBase),
             (''feature_importance'', orElse (get voting ''feature_importance'') (JObj [])),
             (''predictions_sample'', orElse (get voting ''predictions_sample'') (JArr [])),
             (''visualizations'', orElse (get voting ''visualizations'') JNull)]),
         (''stacking'', JObj
            [(''algorithm'', JStr ''Stacking Classifier''),
             (''base_models'', JObj stackingBase),
             (''meta_model_performance'', performance e stackingEnsemble stackingBase),
             (''feature_importance'', orElse (get stacking ''feature_importance'') (JObj [])),
             (''predictions_sample'', orElse (get stacking ''predictions_sample'') (JArr [])),
             (''visualizations'', orElse (get stacking ''visualizations'') JNull)]),
         (''dataset_info'', JObj
            [(''dataset_id'', JStr datasetId),
             (''n_samples'', coalesce (get info ''n_samples'') (JNum (Fin (real n_samples)))),
             (''n_features'', coalesce (get info ''n_features'')
                                (JNum (Fin (real (length headers) - 1)))),
             (''feature_names'', coalesce (get info ''feature_names'') (JArr (map JStr headers))),
             (''is_classification'', JBool True),
             (''n_classes'', coalesce (get info ''n_classes'') JNull),
             (''class_names'', coalesce (get info ''class_names'') JNull),
             (''task_type'', JStr ''classification''),
             (''target_variable'', JStr (targetVariable datasetId headers))])])"

subsection \<open>Running the pipeline\<close>

definition parseCsvLines :: "string \<Rightarrow> string list" where
  "parseCsvLines csvContent = split (CHR 0x0A) (trim csvContent)"

definition csvHeaders :: "string list \<Rightarrow> string list" where
  "csvHeaders lines = map trim (split (CHR '','') (hd lines))"

definition csvDataRows :: "string list \<Rightarrow> string list" where
  "csvDataRows lines = filter (\<lambda>line. trim line \<noteq> []) (tl lines)"

definition pythonScript :: "env \<Rightarrow> string \<Rightarrow> string" where
  "pythonScript e datasetId =
     (if datasetId = ''loan'' then pathJoin [cwd e, ''ml-scripts'', ''run_ensemble_analysis.py'']
      else pathJoin [cwd e, ''ml-scripts'', ''run_ensemble.py''])"

text \<open>\<open>JSON.stringify({ meta_learner: metaLearner })\<close> for a meta-learner that passed
  validation: the three allowed names need no escaping.\<close>

definition pythonArgs :: "string \<Rightarrow> string \<Rightarrow> string \<Rightarrow> string list" where
  "pythonArgs datasetId datasetsPath metaLearner =
     (if datasetId = ''loan''
      then [datasetsPath, ''both'', ''{\"meta_learner\":\"'' @ metaLearner @ ''\"}'']
      else [datasetsPath, metaLearner])"

text \<open>The \<open>catch (pythonError)\<close> clause rethrows every error of the inner \<open>try\<close> under
  one message.\<close>

definition mlFailed :: "string \<Rightarrow> string" where
  "mlFailed errorMessage =
     ''ML Processing Failed: '' @ errorMessage @
     ''. Please check if Python and required packages (scikit-learn, xgboost, pandas, numpy) are installed.''"

definition parsePythonOutput :: "env \<Rightarrow> string \<Rightarrow> string + js" where
  "parsePythonOutput e out =
     (case extractJsonFromStdout out of
        Inl msg \<Rightarrow>
          Inl ''Unable to parse machine learning results. Please check the server logs for details.''
      | Inr jsonStr \<Rightarrow>
          (case jsonParse e jsonStr of
             None \<Rightarrow>
               Inl ''Unable to parse machine learning results. Please check the server logs for details.''
           | Some pythonResults \<Rightarrow> Inr pythonResults))"

definition normalise :: "env \<Rightarrow> string \<Rightarrow> string list \<Rightarrow> nat \<Rightarrow> js \<Rightarrow> string + js" where
  "normalise e datasetId headers n_samples pythonResults =
     (if datasetId \<noteq> ''loan''
      then (if \<not> isRecord pythonResults then Inl ''Python regression results are malformed''
            else (case ensureDatasetInfo pythonResults of
                    Inl msg \<Rightarrow> Inl msg
                  | Inr u \<Rightarrow> Inr (regressionResults datasetId headers pythonResults)))
      else (if \<not> isRecord pythonResults then Inl ''Python classification results are malformed''
            else (case ensureDatasetInfo pythonResults of
                    Inl msg \<Rightarrow> Inl msg
                  | Inr u \<Rightarrow>
                      Inr (classificationResults e datasetId headers n_samples pythonResults))))"

text \<open>The inner \<open>try\<close>: start the child, wait for the promise, parse and normalise.\<close>

definition runPipeline :: "env \<Rightarrow> string \<Rightarrow> string \<Rightarrow> string \<Rightarrow> string list \<Rightarrow> nat \<Rightarrow> result" where
  "runPipeline e datasetId metaLearner datasetsPath headers n_samples =
     (let script = pythonScript e datasetId;
          args = pythonArgs datasetId datasetsPath metaLearner
      in case promised (executePythonScript e (childEvents e script args)) of
           None \<Rightarrow> Failure (mlFailed ''Unknown Python error'')
         | Some (Rejected msg) \<Rightarrow> Failure (mlFailed msg)
         | Some (Resolved out) \<Rightarrow>
             (case parsePythonOutput e out of
                Inl msg \<Rightarrow> Failure (mlFailed msg)
              | Inr pythonResults \<Rightarrow>
                  (case normalise e datasetId headers n_samples pythonResults of
                     Inl msg \<Rightarrow> Failure (mlFailed msg)
                   | Inr results \<Rightarrow> Success results)))"

text \<open>The live path: everything after the precomputed results were not used.\<close>

definition livePath :: "env \<Rightarrow> string \<Rightarrow> string \<Rightarrow> result \<times> effect list" where
  "livePath e datasetId metaLearner =
     (case map_of DATASET_FILES datasetId of
        None \<Rightarrow> (Failure (''Unknown dataset: '' @ datasetId), [])
      | Some filename \<Rightarrow>
          (let datasetsPath = pathJoin [cwd e, ''data'', filename];
               unable = ''Unable to access dataset file. Please verify the bundled data files are available on the server.''
           in case statSize e datasetsPath of
                Inl msg \<Rightarrow> (Failure unable, [Stat datasetsPath])
              | Inr sizeBytes \<Rightarrow>
                  if real sizeBytes > MAX_DATASET_FILE_SIZE_BYTES e
                  then (Failure unable, [Stat datasetsPath])
                  else (case readFileSync e datasetsPath of
                          Inl msg \<Rightarrow> (Failure msg, [Stat datasetsPath, ReadFile datasetsPath])
                        | Inr csvContent \<Rightarrow>
                            (let lines = parseCsvLines csvContent;
                                 headers = csvHeaders lines;
                                 dataRows = csvDataRows lines
                             in (runPipeline e datasetId metaLearner datasetsPath headers
                                   (length dataRows),
                                 [Stat datasetsPath, ReadFile datasetsPath,
                                  Spawn (pythonScript e datasetId)
                                        (pythonArgs datasetId datasetsPath metaLearner)])))))"

text \<open>
  \<open>processDataset\<close>. The two form fields are what \<open>formData.get\<close> returns: \<open>None\<close> for
  \<open>null\<close>, otherwise the text. The result comes with the file and process operations
  performed, in order.
\<close>

definition processDataset :: "env \<Rightarrow> string option \<Rightarrow> string option \<Rightarrow> result \<times> effect list" where
  "processDataset e dataset meta_learner =
     (let metaLearner = (case meta_learner of
                           None \<Rightarrow> ''linear''
                         | Some m \<Rightarrow> if m = [] then ''linear'' else m)
      in case dataset of
           None \<Rightarrow> (Failure ''No dataset selected'', [])
         | Some datasetId \<Rightarrow>
             if datasetId = [] then (Failure ''No dataset selected'', [])
             else if \<not> isValidDataset datasetId
               then (Failure (''Invalid dataset: '' @ datasetId @ ''. Allowed values: '' @
                              joinWith '', '' ALLOWED_DATASETS), [])
             else if \<not> isValidMetaLearner metaLearner
               then (Failure (''Invalid meta-learner: '' @ metaLearner @ ''. Allowed values: '' @
                              joinWith '', '' ALLOWED_META_LEARNERS), [])
             else (case loadPrecomputed e datasetId metaLearner of
                     (Some combinedResults, effs) \<Rightarrow> (Success combinedResults, effs)
                   | (None, effs) \<Rightarrow>
                       (case livePath e datasetId metaLearner of
                          (r, effs') \<Rightarrow> (r, effs @ effs'))))"

section \<open>getDatasetRows\<close>

datatype rowsResult = Rows "string list" "string list list" | RowsError string

definition getDatasetRows :: "env \<Rightarrow> string \<Rightarrow> rowsResult" where
  "getDatasetRows e datasetId =
     (if datasetId = [] then RowsError ''No dataset specified''
      else if \<not> isValidDataset datasetId then RowsError (''Invalid dataset: '' @ datasetId)
      else (case map_of DATASET_FILES datasetId of
              None \<Rightarrow> RowsError (''Unknown dataset: '' @ datasetId)
            | Some filename \<Rightarrow>
                (case readFileSync e (pathJoin [cwd e, ''data'', filename]) of
                   Inl msg \<Rightarrow> RowsError msg
                 | Inr csvContent \<Rightarrow>
                     (let lines = parseCsvLines csvContent
                      in Rows (csvHeaders lines)
                              (map (\<lambda>l. map trim (split (CHR '','') l)) (csvDataRows lines))))))"

section \<open>The dashboard's derived metrics\<close>

text \<open>\<open>baseModels\<close>: the \<open>base_models\<close> of the method's data when it is an object, else
  its \<open>metrics\<close> without the entry of the voting ensemble, else an empty object.\<close>

definition baseModels :: "js \<Rightarrow> js" where
  "baseModels methodData =
     (if isRecord (get methodData ''base_models'') then get methodData ''base_models''
      else if truthy (get methodData ''metrics'')
        then JObj (foldl (\<lambda>transformed (modelName, metrics).
                            if modelName \<noteq> ''Voting Ensemble''
                            then setProp transformed modelName metrics else transformed)
                         [] (ownEntries (get methodData ''metrics'')))
      else JObj [])"

definition primaryModelKey :: "bool \<Rightarrow> js \<Rightarrow> string" where
  "primaryModelKey isClassification bm =
     (if isClassification
      then (if truthy (get bm ''Logistic Regression'') then ''Logistic Regression''
            else ''Linear Regression'')
      else ''Linear Regression'')"

text \<open>The differences \<open>actual - prediction\<close> over the sample rows where both are finite.\<close>

fun diffsOf :: "env \<Rightarrow> string \<Rightarrow> js list \<Rightarrow> real list" where
  "diffsOf e predKey [] = []"
| "diffsOf e predKey (p # ps) =
     (case (toNumber e (get p ''actual''), toNumber e (get p predKey)) of
        (Fin a, Fin b) \<Rightarrow> (a - b) # diffsOf e predKey ps
      | _ \<Rightarrow> diffsOf e predKey ps)"

definition compute :: "env \<Rightarrow> js list \<Rightarrow> string \<Rightarrow> js" where
  "compute e preds predKey =
     (let diffs = diffsOf e predKey preds in
      if diffs = [] then JObj [(''rmse'', JNum (Fin 0)), (''mae'', JNum (Fin 0))]
      else (let mae = sum_list (map abs diffs) / real (length diffs);
                mse = sum_list (map (\<lambda>d. d * d) diffs) / real (length diffs);
                rmse = sqrt mse
            in JObj [(''rmse'', JNum (Fin rmse)), (''mae'', JNum (Fin mae)),
                     (''isApproximate'', JBool True)]))"

text \<open>One entry of the enhanced object: the spread of the model's own metrics, then
  \<open>rmse\<close> and \<open>mae\<close>, each the model's own value unless that is \<open>null\<close> or \<open>undefined\<close>.\<close>

definition enhancedEntry :: "js \<Rightarrow> js \<Rightarrow> js" where
  "enhancedEntry model approx =
     JObj (setProp (setProp (ownEntries model)
                      ''rmse'' (coalesce (get model ''rmse'') (get approx ''rmse'')))
             ''mae'' (coalesce (get model ''mae'') (get approx ''mae'')))"

definition needFix :: "js \<Rightarrow> bool" where
  "needFix bm =
     (\<not> truthy (get (get bm ''Linear Regression'') ''rmse'') \<or>
      \<not> truthy (get (get bm ''Random Forest'') ''rmse'') \<or>
      \<not> truthy (get (get bm ''XGBoost'') ''rmse''))"

definition predictionsSample :: "js \<Rightarrow> js list" where
  "predictionsSample methodData =
     (case get methodData ''predictions_sample'' of JArr xs \<Rightarrow> xs | _ \<Rightarrow> [])"

definition baseModelsEnhanced :: "env \<Rightarrow> bool \<Rightarrow> js \<Rightarrow> js \<Rightarrow> js" where
  "baseModelsEnhanced e isClassification bm methodData =
     (if isClassification then bm
      else (let preds = predictionsSample methodData in
        if \<not> needFix bm \<or> preds = [] then bm
        else (let approxLinear = compute e preds ''linear_reg'';
                  approxRF = compute e preds ''random_forest'';
                  approxXGB = compute e preds ''xgboost''
              in JObj
                (setProp
                  (setProp
                    (setProp (ownEntries bm)
                       ''Linear Regression'' (enhancedEntry (get bm ''Linear Regression'') approxLinear))
                    ''Random Forest'' (enhancedEntry (get bm ''Random Forest'') approxRF))
                  ''XGBoost'' (enhancedEntry (get bm ''XGBoost'') approxXGB)))))"

text \<open>\<open>ensemble\<close>: the performance of the combined model, \<open>null\<close> when the data has none.\<close>

definition ensembleOf :: "js \<Rightarrow> js" where
  "ensembleOf methodData =
     (if truthy (get methodData ''ensemble_performance'') then get methodData ''ensemble_performance''
      else if truthy (get methodData ''meta_model_performance'')
        then get methodData ''meta_model_performance''
      else if truthy (get (get methodData ''metrics'') ''Voting Ensemble'')
        then get (get methodData ''metrics'') ''Voting Ensemble''
      else if truthy (get (get methodData ''metrics'') ''Stacking Ensemble'')
        then get (get methodData ''metrics'') ''Stacking Ensemble''
      else JNull)"

text \<open>The filter \<open>typeof v === 'number' && !Number.isNaN(v)\<close>.\<close>

fun numericValues :: "js list \<Rightarrow> jsnum list" where
  "numericValues [] = []"
| "numericValues (JNum NaN # vs) = numericValues vs"
| "numericValues (JNum n # vs) = n # numericValues vs"
| "numericValues (v # vs) = numericValues vs"

text \<open>\<open>x.toFixed(1)\<close>.\<close>

definition toFixedText :: "env \<Rightarrow> jsnum \<Rightarrow> string" where
  "toFixedText e x =
     (case x of Fin r \<Rightarrow> toFixed1 e r | NaN \<Rightarrow> ''NaN'' | PosInf \<Rightarrow> ''Infinity''
      | NegInf \<Rightarrow> ''-Infinity'')"

text \<open>\<open>derivedImprovement\<close>: \<open>None\<close> is \<open>null\<close>, otherwise the pair of \<open>raw\<close> and
  \<open>formatted\<close>.\<close>

definition derivedImprovement :: "env \<Rightarrow> bool \<Rightarrow> string \<Rightarrow> js \<Rightarrow> js \<Rightarrow> (jsnum \<times> string) option" where
  "derivedImprovement e isClassification primaryKey enhanced ensemble =
     (let metricKey = (if isClassification then ''accuracy'' else ''r2_score'');
          baseKeys = [primaryKey, ''Random Forest'', ''XGBoost''];
          baseValues = numericValues (map (\<lambda>key. get (get enhanced key) metricKey) baseKeys);
          ensembleVal = get ensemble metricKey
      in case (baseValues, ensembleVal) of
           (v # vs, JNum n) \<Rightarrow>
             (let bestBase = foldl num_max v vs;
                  raw = num_mul e (num_sub e n bestBase) (Fin 100)
              in Some (raw, toFixedText e raw @ ''%''))
         | _ \<Rightarrow> None)"

definition improvementRaw :: "env \<Rightarrow> bool \<Rightarrow> string \<Rightarrow> js \<Rightarrow> js \<Rightarrow> jsnum option" where
  "improvementRaw e isClassification primaryKey enhanced ensemble =
     (case get ensemble ''raw_improvement'' of
        JNum n \<Rightarrow> Some n
      | _ \<Rightarrow> map_option fst (derivedImprovement e isClassification primaryKey enhanced ensemble))"

section \<open>The dataset loader of the pipeline\<close>

text \<open>
  Modelled from the spec: the dataset loader of the Python pipeline, the scripts
  \<open>run_ensemble.py\<close> and \<open>run_ensemble_analysis.py\<close> that \<open>processDataset\<close> starts, which are
  not among the sources. The specification (4.1, Dataset Loader/Splitter): given raw
  tabular input and a target column name, the loader returns a dataset plus the inferred
  task type; it fails with \<open>DataFormatError\<close> if the target column is absent, if any row has
  a different column count than the header, or if the dataset has fewer than a minimum
  viable row count, about 30 rows. How the task type is inferred from the target is left
  open there; it is a parameter here.
\<close>

datatype loaderError = DataFormatError

datatype taskType = Classification | Regression

record rawTable =
  tableHeader :: "string list"
  tableRows :: "string list list"

record dataset =
  records :: "(string \<times> string) list list"
  targetColumn :: string
  taskOf :: taskType

definition MIN_VIABLE_ROWS :: nat where
  "MIN_VIABLE_ROWS = 30"

definition targetValues :: "rawTable \<Rightarrow> string \<Rightarrow> string list" where
  "targetValues table target =
     map (\<lambda>row. case map_of (zip (tableHeader table) row) target of Some v \<Rightarrow> v | None \<Rightarrow> [])
         (tableRows table)"

definition loadDataset :: "(string list \<Rightarrow> taskType) \<Rightarrow> rawTable \<Rightarrow> string \<Rightarrow> loaderError + dataset" where
  "loadDataset inferTask table target =
     (if target \<notin> set (tableHeader table) then Inl DataFormatError
      else if list_ex (\<lambda>row. length row \<noteq> length (tableHeader table)) (tableRows table)
        then Inl DataFormatError
      else if length (tableRows table) < MIN_VIABLE_ROWS then Inl DataFormatError
      else Inr \<lparr>records = map (zip (tableHeader table)) (tableRows table),
                targetColumn = target,
                taskOf = inferTask (targetValues table target)\<rparr>)"

section \<open>Concrete worlds for the examples\<close>

text \<open>A server with no files at all and no setting in the process environment. The
  numbers of the examples are such that double arithmetic computes them exactly, so \<open>fl\<close>
  returns the exact result.\<close>

definition bareEnv :: env where
  "bareEnv =
     \<lparr>cwd = ''/app'',
      existsSync = (\<lambda>p. False),
      readFileSync = (\<lambda>p. Inl ''ENOENT: no such file or directory''),
      statSize = (\<lambda>p. Inl ''ENOENT: no such file or directory''),
      jsonParse = (\<lambda>t. None),
      childEvents = (\<lambda>script args. []),
      coerceNumber = (\<lambda>v. NaN),
      toFixed1 = (\<lambda>r. ''?''),
      numberToString = (\<lambda>r. if r = 120000 then ''120000'' else ''?''),
      numberEnv = (\<lambda>name. None),
      fl = (\<lambda>x. Fin x)\<rparr>"

text \<open>A server with the given files (path and text), the given parses of JSON texts and
  a child process that behaves as the given events say.\<close>

definition worldWith :: "(string \<times> string) list \<Rightarrow> (string \<times> js) list \<Rightarrow> event list \<Rightarrow> env" where
  "worldWith files parses evs =
     bareEnv
       \<lparr>existsSync := (\<lambda>p. map_of files p \<noteq> None),
        readFileSync := (\<lambda>p. case map_of files p of
                                None \<Rightarrow> Inl ''ENOENT: no such file or directory''
                              | Some t \<Rightarrow> Inr t),
        statSize := (\<lambda>p. case map_of files p of
                            None \<Rightarrow> Inl ''ENOENT: no such file or directory''
                          | Some t \<Rightarrow> Inr (length t)),
        jsonParse := map_of parses,
        childEvents := (\<lambda>script args. evs)\<rparr>"

text \<open>Precomputed files for \<open>automobile\<close> and \<open>linear\<close> that carry everything.\<close>

definition fullCache :: env where
  "fullCache =
     worldWith
       [(''/app/public/precomputed-results/automobile-voting.json'',
         ''{\"success\":true,\"data\":{\"voting\":{\"algorithm\":\"Voting Regressor\"},\"dataset_info\":{\"dataset_id\":\"automobile\"}}}''),
        (''/app/public/precomputed-results/automobile-stacking-linear.json'',
         ''{\"success\":true,\"data\":{\"stacking\":{\"algorithm\":\"Stacking Regressor\"}}}'')]
       [(''{\"success\":true,\"data\":{\"voting\":{\"algorithm\":\"Voting Regressor\"},\"dataset_info\":{\"dataset_id\":\"automobile\"}}}'',
         JObj [(''success'', JBool True),
               (''data'', JObj [(''voting'', JObj [(''algorithm'', JStr ''Voting Regressor'')]),
                                (''dataset_info'', JObj [(''dataset_id'', JStr ''automobile'')])])]),
        (''{\"success\":true,\"data\":{\"stacking\":{\"algorithm\":\"Stacking Regressor\"}}}'',
         JObj [(''success'', JBool True),
               (''data'', JObj [(''stacking'', JObj [(''algorithm'', JStr ''Stacking Regressor'')])])])]
       []"

text \<open>Precomputed files that are marked successful but carry no \<open>data\<close>; the data file
  is there and Python is not installed.\<close>

definition cacheWithoutData :: env where
  "cacheWithoutData =
     worldWith
       [(''/app/public/precomputed-results/automobile-voting.json'', ''{\"success\":true}''),
        (''/app/public/precomputed-results/automobile-stacking-linear.json'', ''{\"success\":true}''),
        (''/app/data/Automobile.csv'', ''mpg,horsepower'' @ [CHR 0x0A] @ ''18,130'')]
       [(''{\"success\":true}'', JObj [(''success'', JBool True)])]
       [ProcError ''spawn python ENOENT'']"

text \<open>Precomputed files that are marked successful and carry \<open>voting\<close> and \<open>stacking\<close>
  but no \<open>dataset_info\<close>.\<close>

definition cacheWithoutInfo :: env where
  "cacheWithoutInfo =
     worldWith
       [(''/app/public/precomputed-results/automobile-voting.json'',
         ''{\"success\":true,\"data\":{\"voting\":{\"algorithm\":\"Voting Regressor\"}}}''),
        (''/app/public/precomputed-results/automobile-stacking-linear.json'',
         ''{\"success\":true,\"data\":{\"stacking\":{\"algorithm\":\"Stacking Regressor\"}}}'')]
       [(''{\"success\":true,\"data\":{\"voting\":{\"algorithm\":\"Voting Regressor\"}}}'',
         JObj [(''success'', JBool True),
               (''data'', JObj [(''voting'', JObj [(''algorithm'', JStr ''Voting Regressor'')])])]),
        (''{\"success\":true,\"data\":{\"stacking\":{\"algorithm\":\"Stacking Regressor\"}}}'',
         JObj [(''success'', JBool True),
               (''data'', JObj [(''stacking'', JObj [(''algorithm'', JStr ''Stacking Regressor'')])])])]
       []"

text \<open>Output of the classification pipeline in its live format, with two base models and
  the ensemble entry for each method.\<close>

definition loanResults :: js where
  "loanResults =
     JObj [(''dataset_info'', JObj [(''n_samples'', JNum (Fin 4269))]),
           (''ensembles'', JObj
              [(''voting'', JObj
                  [(''metrics'', JObj
                      [(''Logistic Regression'',
                          JObj [(''accuracy'', JNum (Fin 0.5)), (''precision'', JNum (Fin 0.25)),
                                (''recall'', JNum (Fin 0.125))]),
                       (''Random Forest'',
                          JObj [(''accuracy'', JNum (Fin 0.75)), (''precision'', JNum (Fin 0.5)),
                                (''recall'', JNum (Fin 0.5)), (''f1_score'', JNum (Fin 0.5))]),
                       (''Voting Ensemble'',
                          JObj [(''accuracy'', JNum (Fin 0.875)), (''precision'', JNum (Fin 0.5)),
                                (''recall'', JNum (Fin 0.5)), (''f1_score'', JNum (Fin 0.5))])])]),
               (''stacking'', JObj
                  [(''metrics'', JObj
                      [(''Random Forest'',
                          JObj [(''accuracy'', JNum (Fin 0.75)), (''precision'', JNum (Fin 0.5)),
                                (''recall'', JNum (Fin 0.5)), (''f1_score'', JNum (Fin 0.5))]),
                       (''Stacking Ensemble'',
                          JObj [(''accuracy'', JNum (Fin 0.8125)), (''precision'', JNum (Fin 0.5)),
                                (''recall'', JNum (Fin 0.5)), (''f1_score'', JNum (Fin 0.5))])])])])]"

text \<open>Output of the pipeline in which one accuracy is a text.\<close>

definition textMetricResults :: js where
  "textMetricResults =
     JObj [(''dataset_info'', JObj []),
           (''voting'', JObj
              [(''metrics'', JObj
                  [(''Logistic Regression'', JObj [(''accuracy'', JStr ''high'')])])])]"

text \<open>What the dashboard receives for a regression method: the three base models with
  their \<open>r2_score\<close> only, the performance of the combined model without
  \<open>raw_improvement\<close>, and one sampled prediction.\<close>

definition regressionData :: js where
  "regressionData =
     JObj [(''base_models'', JObj
              [(''Linear Regression'', JObj [(''r2_score'', JNum (Fin 0.8))]),
               (''Random Forest'', JObj [(''r2_score'', JNum (Fin 0.85))]),
               (''XGBoost'', JObj [(''r2_score'', JNum (Fin 0.9))])]),
           (''meta_model_performance'', JObj [(''r2_score'', JNum (Fin 0.92))]),
           (''predictions_sample'', JArr
              [JObj [(''actual'', JNum (Fin 3)), (''predicted'', JNum (Fin 2)),
                     (''linear_reg'', JNum (Fin 1)), (''random_forest'', JNum (Fin 3)),
                     (''xgboost'', JNum (Fin 5))]])]"

text \<open>A server whose environment sets \<open>PYTHON_STDOUT_MAX_MB\<close> to \<open>0.000001\<close>: the limit
  on the output of the child is a little more than one character.\<close>

definition tinyLimit :: env where
  "tinyLimit =
     bareEnv\<lparr>numberEnv := (\<lambda>name. if name = ''PYTHON_STDOUT_MAX_MB''
                                   then Some (Fin 0.000001) else None)\<rparr>"

text \<open>Regression data in which every base model has its \<open>rmse\<close> and the linear model has
  no \<open>mae\<close>.\<close>

definition regressionDataNoMae :: js where
  "regressionDataNoMae =
     JObj [(''base_models'', JObj
              [(''Linear Regression'', JObj [(''r2_score'', JNum (Fin 0.8)), (''rmse'', JNum (Fin 4))]),
               (''Random Forest'', JObj [(''rmse'', JNum (Fin 3)), (''mae'', JNum (Fin 2))]),
               (''XGBoost'', JObj [(''rmse'', JNum (Fin 3)), (''mae'', JNum (Fin 2))])]),
           (''predictions_sample'', JArr
              [JObj [(''actual'', JNum (Fin 3)), (''linear_reg'', JNum (Fin 1))]])]"

text \<open>Output of the classification pipeline in which one base model has a number as
  accuracy and the other the text \<open>n/a\<close>.\<close>

definition naResults :: js where
  "naResults =
     JObj [(''dataset_info'', JObj []),
           (''voting'', JObj
              [(''metrics'', JObj
                  [(''Logistic Regression'', JObj [(''accuracy'', JNum (Fin 0.75))]),
                   (''Random Forest'', JObj [(''accuracy'', JStr ''n/a'')]),
                   (''Voting Ensemble'', JObj [(''accuracy'', JNum (Fin 0.875))])])])]"

text \<open>Output of the classification pipeline with a base model under the key
  \<open>__proto__\<close>.\<close>

definition protoResults :: js where
  "protoResults =
     JObj [(''dataset_info'', JObj []),
           (''voting'', JObj
              [(''metrics'', JObj
                  [(''__proto__'', JObj [(''accuracy'', JNum (Fin 0.75))]),
                   (''Random Forest'', JObj [(''accuracy'', JNum (Fin 0.5))])])])]"

text \<open>What the dashboard receives for a regression method whose performance carries no
  \<open>raw_improvement\<close>.\<close>

definition dashboardBase :: js where
  "dashboardBase =
     JObj [(''Linear Regression'', JObj [(''r2_score'', JNum (Fin 0.5))]),
           (''Random Forest'', JObj [(''r2_score'', JNum (Fin 0.75))]),
           (''XGBoost'', JObj [(''r2_score'', JNum (Fin 0.625))])]"

definition dashboardEnsemble :: js where
  "dashboardEnsemble = JObj [(''r2_score'', JNum (Fin 0.875))]"

text \<open>A well-formed table of 25 rows with its target column, and the same with 30 rows.\<close>

definition table25 :: rawTable where
  "table25 = \<lparr>tableHeader = [''cement'', ''age'', ''strength''],
              tableRows = replicate 25 [''540.0'', ''28'', ''79.99'']\<rparr>"

definition table30 :: rawTable where
  "table30 = \<lparr>tableHeader = [''cement'', ''age'', ''strength''],
              tableRows = replicate 30 [''540.0'', ''28'', ''79.99'']\<rparr>"


section \<open>Properties of extractJsonFromStdout\<close>

lemma startsWith_iff: "startsWith s p \<longleftrightarrow> length p \<le> length s \<and> take (length p) s = p"
  by (induction s p rule: startsWith.induct) auto


lemma indexOf_least:
  "k \<le> length s \<Longrightarrow> startsWith (drop k s) pat \<Longrightarrow> \<exists>i. indexOf s pat = Some i \<and> i \<le> k"
proof (induction s arbitrary: k)
  case Nil
  then show ?case by (cases pat) auto
next
  case (Cons c cs)
  show ?case
  proof (cases "startsWith (c # cs) pat")
    case True
    then show ?thesis by simp
  next
    case False
    with Cons.prems obtain k' where k': "k = Suc k'" by (cases k) auto
    with Cons.prems have "k' \<le> length cs" "startsWith (drop k' cs) pat" by auto
    from Cons.IH [OF this] obtain i where "indexOf cs pat = Some i" "i \<le> k'" by blast
    with False k' show ?thesis by simp
  qed
qed













section \<open>Validation of the request\<close>

lemma allowed_datasets_text: "joinWith '', '' ALLOWED_DATASETS = ''automobile, concrete, loan''"
  by (simp add: ALLOWED_DATASETS_def)

lemma allowed_meta_text: "joinWith '', '' ALLOWED_META_LEARNERS = ''linear, random_forest, xgboost''"
  by (simp add: ALLOWED_META_LEARNERS_def)

text \<open>
  Claim C7. A request whose dataset is missing (\<open>null\<close> or empty) fails with
  \<open>No dataset selected\<close>; a dataset outside the three allowed names fails with a message
  that names it; an allowed dataset with a non-empty meta-learner outside the three allowed
  names fails with a message that names the meta-learner. In all three cases no file is
  looked at and no process is started: the list of operations is empty. A missing
  meta-learner (\<open>null\<close> or empty) is handled as \<open>linear\<close>.
\<close>

theorem processDataset_validation:
  "(dataset = None \<or> dataset = Some [] \<longrightarrow>
      processDataset e dataset ml = (Failure ''No dataset selected'', []))
   \<and> (d \<noteq> [] \<and> d \<notin> {''automobile'', ''concrete'', ''loan''} \<longrightarrow>
      processDataset e (Some d) ml =
        (Failure (''Invalid dataset: '' @ d @ ''. Allowed values: automobile, concrete, loan''), []))
   \<and> (d \<in> {''automobile'', ''concrete'', ''loan''} \<and> m \<noteq> [] \<and>
       m \<notin> {''linear'', ''random_forest'', ''xgboost''} \<longrightarrow>
      processDataset e (Some d) (Some m) =
        (Failure (''Invalid meta-learner: '' @ m @
                  ''. Allowed values: linear, random_forest, xgboost''), []))
   \<and> processDataset e dataset None = processDataset e dataset (Some ''linear'')
   \<and> processDataset e dataset (Some []) = processDataset e dataset (Some ''linear'')"
proof (intro conjI impI)
  assume "dataset = None \<or> dataset = Some []"
  then show "processDataset e dataset ml = (Failure ''No dataset selected'', [])"
    by (auto simp: processDataset_def)
next
  assume "d \<noteq> [] \<and> d \<notin> {''automobile'', ''concrete'', ''loan''}"
  then have "d \<noteq> []" "\<not> isValidDataset d"
    by (simp_all add: isValidDataset_def ALLOWED_DATASETS_def)
  then show "processDataset e (Some d) ml =
        (Failure (''Invalid dataset: '' @ d @ ''. Allowed values: automobile, concrete, loan''), [])"
    by (simp add: processDataset_def allowed_datasets_text del: joinWith.simps)
next
  assume h: "d \<in> {''automobile'', ''concrete'', ''loan''} \<and> m \<noteq> [] \<and>
       m \<notin> {''linear'', ''random_forest'', ''xgboost''}"
  then have "d \<noteq> []" "isValidDataset d" "m \<noteq> []" "\<not> isValidMetaLearner m"
    by (auto simp: isValidDataset_def ALLOWED_DATASETS_def isValidMetaLearner_def
        ALLOWED_META_LEARNERS_def)
  then show "processDataset e (Some d) (Some m) =
        (Failure (''Invalid meta-learner: '' @ m @
                  ''. Allowed values: linear, random_forest, xgboost''), [])"
    by (simp add: processDataset_def allowed_meta_text del: joinWith.simps)
next
  show "processDataset e dataset None = processDataset e dataset (Some ''linear'')"
    by (simp add: processDataset_def)
next
  show "processDataset e dataset (Some []) = processDataset e dataset (Some ''linear'')"
    by (simp add: processDataset_def)
qed

theorem processDataset_validation_witness:
  "processDataset bareEnv (Some []) (Some ''linear'') = (Failure ''No dataset selected'', [])
   \<and> processDataset bareEnv (Some ''iris'') (Some ''linear'') =
       (Failure ''Invalid dataset: iris. Allowed values: automobile, concrete, loan'', [])
   \<and> processDataset bareEnv (Some ''loan'') (Some ''svm'') =
       (Failure ''Invalid meta-learner: svm. Allowed values: linear, random_forest, xgboost'', [])"
proof -
  note V = processDataset_validation [of "Some []" bareEnv "Some ''linear''" "''iris''" "''svm''"]
  note W = processDataset_validation [of "Some []" bareEnv "Some ''linear''" "''loan''" "''svm''"]
  have 1: "processDataset bareEnv (Some []) (Some ''linear'') = (Failure ''No dataset selected'', [])"
    using V [THEN conjunct1] by simp
  have 2: "processDataset bareEnv (Some ''iris'') (Some ''linear'') =
       (Failure (''Invalid dataset: '' @ ''iris'' @ ''. Allowed values: automobile, concrete, loan''), [])"
    using V [THEN conjunct2, THEN conjunct1] by simp
  have 3: "processDataset bareEnv (Some ''loan'') (Some ''svm'') =
       (Failure (''Invalid meta-learner: '' @ ''svm'' @
                  ''. Allowed values: linear, random_forest, xgboost''), [])"
    using W [THEN conjunct2, THEN conjunct2, THEN conjunct1] by simp
  from 1 2 3 show ?thesis by simp
qed

section \<open>The precomputed results\<close>

lemma get_nullish: "nullish v \<Longrightarrow> get v k = JUndef"
  by (cases v) (simp_all add: get_def)

lemma truthy_get_not_nullish: "truthy (get v k) \<Longrightarrow> \<not> nullish v"
  using get_nullish [of v k] by auto

lemma combinePrecomputed_eq:
  "combinePrecomputed vd sd =
     (if truthy (get vd ''success'') \<and> truthy (get sd ''success'') \<and>
         \<not> nullish (get vd ''data'') \<and> \<not> nullish (get sd ''data'')
      then Some (JObj [(''voting'', get (get vd ''data'') ''voting''),
                       (''stacking'', get (get sd ''data'') ''stacking''),
                       (''dataset_info'', orElse (get (get vd ''data'') ''dataset_info'')
                                                 (get (get sd ''data'') ''dataset_info''))])
      else None)"
proof (cases "nullish vd \<or> nullish sd")
  case True
  then have "\<not> truthy (get vd ''success'') \<or> \<not> truthy (get sd ''success'')"
    using truthy_get_not_nullish by blast
  then show ?thesis
    by (auto simp: combinePrecomputed_def strictGet_def)
next
  case False
  then show ?thesis
    by (simp add: combinePrecomputed_def strictGet_def)
qed

text \<open>
  Claim C9 (amended). For an allowed dataset and meta-learner: when both precomputed
  files exist, both can be read and parsed, both values have a truthy \<open>success\<close> and both
  have a \<open>data\<close> that is neither \<open>null\<close> nor \<open>undefined\<close>, \<open>processDataset\<close> returns success
  with \<open>voting\<close> from the voting file and \<open>stacking\<close> from the stacking file, and the only
  operations are the two existence checks and the two reads: no process is started. In
  every other case the precomputed files are not used and the result is that of the live
  path, whose operations follow those of the cache check.
\<close>

theorem precomputed_results_served:
  assumes "isValidDataset d" "isValidMetaLearner m"
  shows "(existsSync e (votingFile e d) \<and> existsSync e (stackingFile e d m) \<and>
          readJson e (votingFile e d) = Some vd \<and> readJson e (stackingFile e d m) = Some sd \<and>
          truthy (get vd ''success'') \<and> truthy (get sd ''success'') \<and>
          \<not> nullish (get vd ''data'') \<and> \<not> nullish (get sd ''data'') \<longrightarrow>
          processDataset e (Some d) (Some m) =
            (Success (JObj [(''voting'', get (get vd ''data'') ''voting''),
                            (''stacking'', get (get sd ''data'') ''stacking''),
                            (''dataset_info'', orElse (get (get vd ''data'') ''dataset_info'')
                                                      (get (get sd ''data'') ''dataset_info''))]),
             [Exists (votingFile e d), Exists (stackingFile e d m),
              ReadFile (votingFile e d), ReadFile (stackingFile e d m)]))
     \<and> (\<not> (existsSync e (votingFile e d) \<and> existsSync e (stackingFile e d m) \<and>
            (\<exists>vd sd. readJson e (votingFile e d) = Some vd \<and>
                     readJson e (stackingFile e d m) = Some sd \<and>
                     truthy (get vd ''success'') \<and> truthy (get sd ''success'') \<and>
                     \<not> nullish (get vd ''data'') \<and> \<not> nullish (get sd ''data''))) \<longrightarrow>
          fst (processDataset e (Some d) (Some m)) = fst (livePath e d m) \<and>
          snd (processDataset e (Some d) (Some m)) =
            snd (loadPrecomputed e d m) @ snd (livePath e d m))"
proof -
  from assms have ne: "d \<noteq> []" "m \<noteq> []"
    by (auto simp: isValidDataset_def ALLOWED_DATASETS_def isValidMetaLearner_def
        ALLOWED_META_LEARNERS_def)
  have pd: "processDataset e (Some d) (Some m) =
      (case loadPrecomputed e d m of
         (Some combinedResults, effs) \<Rightarrow> (Success combinedResults, effs)
       | (None, effs) \<Rightarrow> (case livePath e d m of (r, effs') \<Rightarrow> (r, effs @ effs')))"
    using assms ne by (simp add: processDataset_def)
  show ?thesis
  proof (intro conjI impI)
    assume h: "existsSync e (votingFile e d) \<and> existsSync e (stackingFile e d m) \<and>
          readJson e (votingFile e d) = Some vd \<and> readJson e (stackingFile e d m) = Some sd \<and>
          truthy (get vd ''success'') \<and> truthy (get sd ''success'') \<and>
          \<not> nullish (get vd ''data'') \<and> \<not> nullish (get sd ''data'')"
    then show "processDataset e (Some d) (Some m) =
            (Success (JObj [(''voting'', get (get vd ''data'') ''voting''),
                            (''stacking'', get (get sd ''data'') ''stacking''),
                            (''dataset_info'', orElse (get (get vd ''data'') ''dataset_info'')
                                                      (get (get sd ''data'') ''dataset_info''))]),
             [Exists (votingFile e d), Exists (stackingFile e d m),
              ReadFile (votingFile e d), ReadFile (stackingFile e d m)])"
      by (simp add: pd loadPrecomputed_def Let_def combinePrecomputed_eq)
  next
    assume h: "\<not> (existsSync e (votingFile e d) \<and> existsSync e (stackingFile e d m) \<and>
            (\<exists>vd sd. readJson e (votingFile e d) = Some vd \<and>
                     readJson e (stackingFile e d m) = Some sd \<and>
                     truthy (get vd ''success'') \<and> truthy (get sd ''success'') \<and>
                     \<not> nullish (get vd ''data'') \<and> \<not> nullish (get sd ''data'')))"
    then have "fst (loadPrecomputed e d m) = None"
      by (auto simp: loadPrecomputed_def Let_def combinePrecomputed_eq split: option.splits)
    then have "processDataset e (Some d) (Some m) =
        (fst (livePath e d m), snd (loadPrecomputed e d m) @ snd (livePath e d m))"
      by (cases "loadPrecomputed e d m"; cases "livePath e d m") (simp add: pd)
    then show "fst (processDataset e (Some d) (Some m)) = fst (livePath e d m)"
      and "snd (processDataset e (Some d) (Some m)) =
            snd (loadPrecomputed e d m) @ snd (livePath e d m)"
      by simp_all
  qed
qed


lemmas world_simps =
  worldWith_def bareEnv_def votingFile_def stackingFile_def pathJoin_def readJson_def
  get_def isValidDataset_def isValidMetaLearner_def ALLOWED_DATASETS_def
  ALLOWED_META_LEARNERS_def

theorem precomputed_results_served_witness:
  "processDataset fullCache (Some ''automobile'') (Some ''linear'') =
     (Success (JObj [(''voting'', JObj [(''algorithm'', JStr ''Voting Regressor'')]),
                     (''stacking'', JObj [(''algorithm'', JStr ''Stacking Regressor'')]),
                     (''dataset_info'', JObj [(''dataset_id'', JStr ''automobile'')])]),
      [Exists ''/app/public/precomputed-results/automobile-voting.json'',
       Exists ''/app/public/precomputed-results/automobile-stacking-linear.json'',
       ReadFile ''/app/public/precomputed-results/automobile-voting.json'',
       ReadFile ''/app/public/precomputed-results/automobile-stacking-linear.json''])
   \<and> fst (processDataset bareEnv (Some ''automobile'') (Some ''linear'')) =
       fst (livePath bareEnv ''automobile'' ''linear'')"
proof -
  let ?vd = "JObj [(''success'', JBool True),
               (''data'', JObj [(''voting'', JObj [(''algorithm'', JStr ''Voting Regressor'')]),
                                (''dataset_info'', JObj [(''dataset_id'', JStr ''automobile'')])])]"
  let ?sd = "JObj [(''success'', JBool True),
               (''data'', JObj [(''stacking'', JObj [(''algorithm'', JStr ''Stacking Regressor'')])])]"
  have v: "isValidDataset ''automobile''" "isValidMetaLearner ''linear''"
    by (simp_all add: world_simps)
  have vf: "votingFile fullCache ''automobile'' =
      ''/app/public/precomputed-results/automobile-voting.json''"
    and sf: "stackingFile fullCache ''automobile'' ''linear'' =
      ''/app/public/precomputed-results/automobile-stacking-linear.json''"
    by (simp_all add: fullCache_def world_simps)
  have h: "existsSync fullCache (votingFile fullCache ''automobile'') \<and>
      existsSync fullCache (stackingFile fullCache ''automobile'' ''linear'') \<and>
      readJson fullCache (votingFile fullCache ''automobile'') = Some ?vd \<and>
      readJson fullCache (stackingFile fullCache ''automobile'' ''linear'') = Some ?sd \<and>
      truthy (get ?vd ''success'') \<and> truthy (get ?sd ''success'') \<and>
      \<not> nullish (get ?vd ''data'') \<and> \<not> nullish (get ?sd ''data'')"
    unfolding vf sf by (simp add: fullCache_def world_simps)
  have 1: "processDataset fullCache (Some ''automobile'') (Some ''linear'') =
     (Success (JObj [(''voting'', get (get ?vd ''data'') ''voting''),
                     (''stacking'', get (get ?sd ''data'') ''stacking''),
                     (''dataset_info'', orElse (get (get ?vd ''data'') ''dataset_info'')
                                               (get (get ?sd ''data'') ''dataset_info''))]),
      [Exists (votingFile fullCache ''automobile''),
       Exists (stackingFile fullCache ''automobile'' ''linear''),
       ReadFile (votingFile fullCache ''automobile''),
       ReadFile (stackingFile fullCache ''automobile'' ''linear'')])"
    using precomputed_results_served [OF v, of fullCache ?vd ?sd, THEN conjunct1] h
    by (rule mp)
  have n: "\<not> (existsSync bareEnv (votingFile bareEnv ''automobile'') \<and>
            existsSync bareEnv (stackingFile bareEnv ''automobile'' ''linear'') \<and>
            (\<exists>vd sd. readJson bareEnv (votingFile bareEnv ''automobile'') = Some vd \<and>
                     readJson bareEnv (stackingFile bareEnv ''automobile'' ''linear'') = Some sd \<and>
                     truthy (get vd ''success'') \<and> truthy (get sd ''success'') \<and>
                     \<not> nullish (get vd ''data'') \<and> \<not> nullish (get sd ''data'')))"
    by (simp add: bareEnv_def)
  have 2: "fst (processDataset bareEnv (Some ''automobile'') (Some ''linear'')) =
       fst (livePath bareEnv ''automobile'' ''linear'')"
    using precomputed_results_served [OF v, of bareEnv, THEN conjunct2] n by blast
  show ?thesis
    using 1 2 unfolding vf sf by (simp add: get_def orElse_def)
qed

text \<open>
  Claim C9 as stated fails: both files exist and parse to \<open>{"success": true}\<close>, yet
  the request is not served from them. Reading \<open>votingData.data.voting\<close> throws, the inner
  \<open>catch\<close> takes over, and the live path runs: it starts Python, which is not installed
  here.
\<close>

theorem precomputed_without_data_counterexample:
  "existsSync cacheWithoutData (votingFile cacheWithoutData ''automobile'')
   \<and> existsSync cacheWithoutData (stackingFile cacheWithoutData ''automobile'' ''linear'')
   \<and> readJson cacheWithoutData (votingFile cacheWithoutData ''automobile'') =
       Some (JObj [(''success'', JBool True)])
   \<and> readJson cacheWithoutData (stackingFile cacheWithoutData ''automobile'' ''linear'') =
       Some (JObj [(''success'', JBool True)])
   \<and> processDataset cacheWithoutData (Some ''automobile'') (Some ''linear'') =
       (Failure ''ML Processing Failed: Failed to start Python process: spawn python ENOENT. Please check if Python and required packages (scikit-learn, xgboost, pandas, numpy) are installed.'',
        [Exists ''/app/public/precomputed-results/automobile-voting.json'',
         Exists ''/app/public/precomputed-results/automobile-stacking-linear.json'',
         ReadFile ''/app/public/precomputed-results/automobile-voting.json'',
         ReadFile ''/app/public/precomputed-results/automobile-stacking-linear.json'',
         Stat ''/app/data/Automobile.csv'',
         ReadFile ''/app/data/Automobile.csv'',
         Spawn ''/app/ml-scripts/run_ensemble.py'' [''/app/data/Automobile.csv'', ''linear'']])"
proof -
  have vf: "votingFile cacheWithoutData ''automobile'' =
      ''/app/public/precomputed-results/automobile-voting.json''"
    and sf: "stackingFile cacheWithoutData ''automobile'' ''linear'' =
      ''/app/public/precomputed-results/automobile-stacking-linear.json''"
    by (simp_all add: cacheWithoutData_def world_simps)
  have rv: "readJson cacheWithoutData ''/app/public/precomputed-results/automobile-voting.json'' =
      Some (JObj [(''success'', JBool True)])"
    and rs: "readJson cacheWithoutData ''/app/public/precomputed-results/automobile-stacking-linear.json'' =
      Some (JObj [(''success'', JBool True)])"
    and ex: "existsSync cacheWithoutData ''/app/public/precomputed-results/automobile-voting.json''"
      "existsSync cacheWithoutData ''/app/public/precomputed-results/automobile-stacking-linear.json''"
    by (simp_all add: cacheWithoutData_def world_simps)
  have lp: "loadPrecomputed cacheWithoutData ''automobile'' ''linear'' =
      (None, [Exists ''/app/public/precomputed-results/automobile-voting.json'',
         Exists ''/app/public/precomputed-results/automobile-stacking-linear.json'',
         ReadFile ''/app/public/precomputed-results/automobile-voting.json'',
         ReadFile ''/app/public/precomputed-results/automobile-stacking-linear.json''])"
    by (simp add: loadPrecomputed_def vf sf rv rs ex combinePrecomputed_def strictGet_def get_def
        Let_def)
  have ev: "childEvents cacheWithoutData s a = [ProcError ''spawn python ENOENT'']" for s a
    by (simp add: cacheWithoutData_def worldWith_def)
  have run: "promised (executePythonScript cacheWithoutData [ProcError ''spawn python ENOENT'']) =
      Some (Rejected ''Failed to start Python process: spawn python ENOENT'')"
    by (simp add: executePythonScript_def run_def initial_def promised_def)
  have cwd: "cwd cacheWithoutData = ''/app''"
    by (simp add: cacheWithoutData_def worldWith_def bareEnv_def)
  have st: "statSize cacheWithoutData ''/app/data/Automobile.csv'' = Inr 21"
    and rd: "readFileSync cacheWithoutData ''/app/data/Automobile.csv'' =
         Inr (''mpg,horsepower'' @ [CHR 0x0A] @ ''18,130'')"
    and mx: "MAX_DATASET_FILE_SIZE_BYTES cacheWithoutData = 5242880"
    by (simp_all add: cacheWithoutData_def worldWith_def bareEnv_def
        MAX_DATASET_FILE_SIZE_BYTES_def getNumberEnv_def)
  have live: "livePath cacheWithoutData ''automobile'' ''linear'' =
      (Failure ''ML Processing Failed: Failed to start Python process: spawn python ENOENT. Please check if Python and required packages (scikit-learn, xgboost, pandas, numpy) are installed.'',
       [Stat ''/app/data/Automobile.csv'',
         ReadFile ''/app/data/Automobile.csv'',
         Spawn ''/app/ml-scripts/run_ensemble.py'' [''/app/data/Automobile.csv'', ''linear'']])"
    by (simp add: livePath_def DATASET_FILES_def pathJoin_def cwd st rd mx runPipeline_def ev run
        mlFailed_def pythonScript_def pythonArgs_def Let_def)
  have "processDataset cacheWithoutData (Some ''automobile'') (Some ''linear'') =
       (Failure ''ML Processing Failed: Failed to start Python process: spawn python ENOENT. Please check if Python and required packages (scikit-learn, xgboost, pandas, numpy) are installed.'',
        [Exists ''/app/public/precomputed-results/automobile-voting.json'',
         Exists ''/app/public/precomputed-results/automobile-stacking-linear.json'',
         ReadFile ''/app/public/precomputed-results/automobile-voting.json'',
         ReadFile ''/app/public/precomputed-results/automobile-stacking-linear.json'',
         Stat ''/app/data/Automobile.csv'',
         ReadFile ''/app/data/Automobile.csv'',
         Spawn ''/app/ml-scripts/run_ensemble.py'' [''/app/data/Automobile.csv'', ''linear'']])"
    by (simp add: processDataset_def isValidDataset_def isValidMetaLearner_def ALLOWED_DATASETS_def
        ALLOWED_META_LEARNERS_def lp live)
  then show ?thesis
    unfolding vf sf using rv rs ex by simp
qed

lemma ensured_dataset_info:
  "ensureDatasetInfo py = Inr u \<Longrightarrow> isRecord (get py ''dataset_info'')"
  by (simp add: ensureDatasetInfo_def split: if_splits)

lemma normalise_shape:
  assumes "normalise e d h n py = Inr r"
  shows "keys r = [''voting'', ''stacking'', ''dataset_info''] \<and> isRecord (get r ''dataset_info'')"
proof (cases "d = ''loan''")
  case True
  with assms have "r = classificationResults e d h n py"
    by (simp add: normalise_def split: if_splits sum.splits)
  then show ?thesis
    by (simp add: classificationResults_def Let_def keys_def get_def)
next
  case False
  with assms have "r = regressionResults d h py"
    by (simp add: normalise_def split: if_splits sum.splits)
  then show ?thesis
    by (simp add: regressionResults_def Let_def keys_def get_def)
qed

text \<open>On the live path a success always carries the three members, and its
  \<open>dataset_info\<close> is a record.\<close>

lemma live_success_shape:
  assumes "fst (livePath e d m) = Success r"
  shows "keys r = [''voting'', ''stacking'', ''dataset_info''] \<and> isRecord (get r ''dataset_info'')"
proof -
  from assms obtain p h n where "runPipeline e d m p h n = Success r"
    by (auto simp: livePath_def Let_def split: option.splits sum.splits if_splits)
  then obtain py where "normalise e d h n py = Inr r"
    by (auto simp: runPipeline_def Let_def split: option.splits outcome.splits sum.splits)
  then show ?thesis by (rule normalise_shape)
qed

text \<open>
  Claim C1, at the input where the code departs from it: both precomputed files are
  marked successful and carry \<open>voting\<close> and \<open>stacking\<close>, neither carries \<open>dataset_info\<close>.
  \<open>processDataset\<close> answers with success, and the \<open>dataset_info\<close> of the data is
  \<open>undefined\<close>; the live path would have refused such results in \<open>ensureDatasetInfo\<close>.
\<close>

theorem precomputed_without_dataset_info:
  "processDataset cacheWithoutInfo (Some ''automobile'') (Some ''linear'') =
     (Success (JObj [(''voting'', JObj [(''algorithm'', JStr ''Voting Regressor'')]),
                     (''stacking'', JObj [(''algorithm'', JStr ''Stacking Regressor'')]),
                     (''dataset_info'', JUndef)]),
      [Exists ''/app/public/precomputed-results/automobile-voting.json'',
       Exists ''/app/public/precomputed-results/automobile-stacking-linear.json'',
       ReadFile ''/app/public/precomputed-results/automobile-voting.json'',
       ReadFile ''/app/public/precomputed-results/automobile-stacking-linear.json''])
   \<and> ensureDatasetInfo (JObj [(''voting'', JObj [(''algorithm'', JStr ''Voting Regressor'')]),
                     (''stacking'', JObj [(''algorithm'', JStr ''Stacking Regressor'')])]) =
       Inl ''Python results missing dataset_info''"
proof -
  have vf: "votingFile cacheWithoutInfo ''automobile'' =
      ''/app/public/precomputed-results/automobile-voting.json''"
    and sf: "stackingFile cacheWithoutInfo ''automobile'' ''linear'' =
      ''/app/public/precomputed-results/automobile-stacking-linear.json''"
    by (simp_all add: cacheWithoutInfo_def world_simps)
  have rv: "readJson cacheWithoutInfo ''/app/public/precomputed-results/automobile-voting.json'' =
      Some (JObj [(''success'', JBool True),
               (''data'', JObj [(''voting'', JObj [(''algorithm'', JStr ''Voting Regressor'')])])])"
    and rs: "readJson cacheWithoutInfo ''/app/public/precomputed-results/automobile-stacking-linear.json'' =
      Some (JObj [(''success'', JBool True),
               (''data'', JObj [(''stacking'', JObj [(''algorithm'', JStr ''Stacking Regressor'')])])])"
    and ex: "existsSync cacheWithoutInfo ''/app/public/precomputed-results/automobile-voting.json''"
      "existsSync cacheWithoutInfo ''/app/public/precomputed-results/automobile-stacking-linear.json''"
    by (simp_all add: cacheWithoutInfo_def world_simps)
  have lp: "loadPrecomputed cacheWithoutInfo ''automobile'' ''linear'' =
      (Some (JObj [(''voting'', JObj [(''algorithm'', JStr ''Voting Regressor'')]),
                     (''stacking'', JObj [(''algorithm'', JStr ''Stacking Regressor'')]),
                     (''dataset_info'', JUndef)]),
       [Exists ''/app/public/precomputed-results/automobile-voting.json'',
         Exists ''/app/public/precomputed-results/automobile-stacking-linear.json'',
         ReadFile ''/app/public/precomputed-results/automobile-voting.json'',
         ReadFile ''/app/public/precomputed-results/automobile-stacking-linear.json''])"
    by (simp add: loadPrecomputed_def vf sf rv rs ex combinePrecomputed_def strictGet_def get_def
        orElse_def Let_def)
  have "processDataset cacheWithoutInfo (Some ''automobile'') (Some ''linear'') =
     (Success (JObj [(''voting'', JObj [(''algorithm'', JStr ''Voting Regressor'')]),
                     (''stacking'', JObj [(''algorithm'', JStr ''Stacking Regressor'')]),
                     (''dataset_info'', JUndef)]),
      [Exists ''/app/public/precomputed-results/automobile-voting.json'',
       Exists ''/app/public/precomputed-results/automobile-stacking-linear.json'',
       ReadFile ''/app/public/precomputed-results/automobile-voting.json'',
       ReadFile ''/app/public/precomputed-results/automobile-stacking-linear.json''])"
    by (simp add: processDataset_def isValidDataset_def isValidMetaLearner_def ALLOWED_DATASETS_def
        ALLOWED_META_LEARNERS_def lp)
  then show ?thesis
    by (simp add: ensureDatasetInfo_def get_def)
qed
section \<open>Normalised classification results\<close>

lemma get_JObj: "get (JObj kvs) k = (case map_of kvs k of Some x \<Rightarrow> x | None \<Rightarrow> JUndef)"
  by (simp add: get_def)

lemma keys_orElse_empty: "keys (orElse m (JObj [])) = keys m"
proof (cases m)
  case (JNum n)
  then show ?thesis by (cases n) (simp_all add: orElse_def keys_def)
qed (simp_all add: orElse_def keys_def)

lemma map_of_mapBaseStep:
  "map_of (mapBaseStep m acc x) k =
     (if k = x \<and> \<not> str_includes (toLowerCase x) ''ensemble'' \<and> x \<noteq> ''__proto__''
      then Some (metricsEntry (get m x)) else map_of acc k)"
  by (simp add: mapBaseStep_def setProp_def update_conv')

lemma map_of_mapBase_fold:
  "map_of (foldl (mapBaseStep m) acc ks) k =
     (if k \<in> set ks \<and> \<not> str_includes (toLowerCase k) ''ensemble'' \<and> k \<noteq> ''__proto__''
      then Some (metricsEntry (get m k)) else map_of acc k)"
proof (induction ks arbitrary: acc)
  case Nil
  show ?case by simp
next
  case (Cons x xs)
  show ?case
    by (auto simp: Cons.IH map_of_mapBaseStep)
qed

lemma map_of_mapBase:
  "map_of (mapBase m) k =
     (if k \<in> set (keys m) \<and> \<not> str_includes (toLowerCase k) ''ensemble'' \<and> k \<noteq> ''__proto__''
      then Some (metricsEntry (get m k)) else None)"
  by (simp add: mapBase_def map_of_mapBase_fold keys_orElse_empty)

lemma keys_mapBase:
  "k \<in> set (keys (JObj (mapBase m))) \<longleftrightarrow>
     k \<in> set (keys m) \<and> \<not> str_includes (toLowerCase k) ''ensemble'' \<and> k \<noteq> ''__proto__''"
proof -
  have "k \<in> set (keys (JObj (mapBase m))) \<longleftrightarrow> map_of (mapBase m) k \<noteq> None"
    by (simp add: keys_def map_of_eq_None_iff)
  then show ?thesis by (simp add: map_of_mapBase)
qed

lemma get_mapBase:
  "k \<in> set (keys m) \<Longrightarrow> \<not> str_includes (toLowerCase k) ''ensemble'' \<Longrightarrow> k \<noteq> ''__proto__'' \<Longrightarrow>
     get (JObj (mapBase m)) k = metricsEntry (get m k)"
  by (simp add: get_JObj map_of_mapBase)

lemma occurs_includes: "str_includes (a @ p @ b) p"
proof -
  have "startsWith (drop (length a) (a @ p @ b)) p" by (simp add: startsWith_iff)
  then show ?thesis
    using indexOf_least [of "length a" "a @ p @ b" p] by (auto simp: str_includes_def)
qed

lemma any_casing_includes:
  "toLowerCase w = ''ensemble'' \<Longrightarrow> str_includes (toLowerCase (pre @ w @ post)) ''ensemble''"
  using occurs_includes [of "toLowerCase pre" "''ensemble''" "toLowerCase post"]
  by (simp add: toLowerCase_def)

lemma voting_base_models:
  "get (get (classificationResults e d h n py) ''voting'') ''base_models'' =
     JObj (mapBase (metricsOf (votingOf py)))"
  by (simp add: classificationResults_def Let_def get_JObj)

lemma stacking_base_models:
  "get (get (classificationResults e d h n py) ''stacking'') ''base_models'' =
     JObj (mapBase (metricsOf (stackingOf py)))"
  by (simp add: classificationResults_def Let_def get_JObj)

lemma metricsEntry_fields:
  "metricsEntry u =
     JObj [(''accuracy'', coalesce (get u ''accuracy'') (JNum (Fin 0))),
           (''precision'', coalesce (get u ''precision'') (JNum (Fin 0))),
           (''recall'', coalesce (get u ''recall'') (JNum (Fin 0))),
           (''f1_score'', coalesce (get u ''f1_score'') (JNum (Fin 0)))]"
  by (simp add: metricsEntry_def)

text \<open>
  Claim C8 (amended). In the normalised classification result, for voting and for
  stacking alike, the keys of \<open>base_models\<close> are exactly the keys of the upstream metrics
  object, other than \<open>__proto__\<close>, whose lower-cased text does not contain \<open>ensemble\<close>; so
  a key that contains the word in any letter casing is excluded. Each key that is kept
  carries an object with the four fields \<open>accuracy\<close>, \<open>precision\<close>, \<open>recall\<close> and
  \<open>f1_score\<close>, taken from the upstream entry.
\<close>

theorem base_models_without_ensemble:
  "(k \<in> set (keys (get (get (classificationResults e d h n py) ''voting'') ''base_models'')) \<longleftrightarrow>
      k \<in> set (keys (metricsOf (votingOf py))) \<and> \<not> str_includes (toLowerCase k) ''ensemble'' \<and>
      k \<noteq> ''__proto__'')
   \<and> (k \<in> set (keys (get (get (classificationResults e d h n py) ''stacking'') ''base_models'')) \<longleftrightarrow>
      k \<in> set (keys (metricsOf (stackingOf py))) \<and> \<not> str_includes (toLowerCase k) ''ensemble'' \<and>
      k \<noteq> ''__proto__'')
   \<and> (toLowerCase w = ''ensemble'' \<longrightarrow>
        pre @ w @ post \<notin> set (keys (get (get (classificationResults e d h n py) ''voting'') ''base_models'')) \<and>
        pre @ w @ post \<notin> set (keys (get (get (classificationResults e d h n py) ''stacking'') ''base_models'')))
   \<and> (k \<in> set (keys (metricsOf (votingOf py))) \<and> \<not> str_includes (toLowerCase k) ''ensemble'' \<and>
       k \<noteq> ''__proto__'' \<longrightarrow>
        get (get (get (classificationResults e d h n py) ''voting'') ''base_models'') k =
          JObj [(''accuracy'', coalesce (get (get (metricsOf (votingOf py)) k) ''accuracy'') (JNum (Fin 0))),
                (''precision'', coalesce (get (get (metricsOf (votingOf py)) k) ''precision'') (JNum (Fin 0))),
                (''recall'', coalesce (get (get (metricsOf (votingOf py)) k) ''recall'') (JNum (Fin 0))),
                (''f1_score'', coalesce (get (get (metricsOf (votingOf py)) k) ''f1_score'') (JNum (Fin 0)))])
   \<and> (k \<in> set (keys (metricsOf (stackingOf py))) \<and> \<not> str_includes (toLowerCase k) ''ensemble'' \<and>
       k \<noteq> ''__proto__'' \<longrightarrow>
        get (get (get (classificationResults e d h n py) ''stacking'') ''base_models'') k =
          JObj [(''accuracy'', coalesce (get (get (metricsOf (stackingOf py)) k) ''accuracy'') (JNum (Fin 0))),
                (''precision'', coalesce (get (get (metricsOf (stackingOf py)) k) ''precision'') (JNum (Fin 0))),
                (''recall'', coalesce (get (get (metricsOf (stackingOf py)) k) ''recall'') (JNum (Fin 0))),
                (''f1_score'', coalesce (get (get (metricsOf (stackingOf py)) k) ''f1_score'') (JNum (Fin 0)))])"
  unfolding voting_base_models stacking_base_models
  using any_casing_includes [of w pre post]
  by (simp add: keys_mapBase get_mapBase metricsEntry_fields)

lemmas lower_simps = toLowerCase_def lowerChar_def upperLetters_def lowerLetters_def

lemma lower_logistic: "toLowerCase ''Logistic Regression'' = ''logistic regression''"
  by (simp add: lower_simps)

lemma lower_ensemble: "toLowerCase ''Ensemble'' = ''ensemble''"
  by (simp add: lower_simps)

lemma lower_forest: "toLowerCase ''Random Forest'' = ''random forest''"
  by (simp add: lower_simps)

lemma lower_voting: "toLowerCase ''Voting Ensemble'' = ''voting ensemble''"
  by (simp add: lower_simps)

lemma lower_stacking: "toLowerCase ''Stacking Ensemble'' = ''stacking ensemble''"
  by (simp add: lower_simps)

lemma lower_proto: "toLowerCase ''__proto__'' = ''__proto__''"
  by (simp add: lower_simps)

lemma loan_voting_metrics:
  "metricsOf (votingOf loanResults) = JObj
                      [(''Logistic Regression'',
                          JObj [(''accuracy'', JNum (Fin 0.5)), (''precision'', JNum (Fin 0.25)),
                                (''recall'', JNum (Fin 0.125))]),
                       (''Random Forest'',
                          JObj [(''accuracy'', JNum (Fin 0.75)), (''precision'', JNum (Fin 0.5)),
                                (''recall'', JNum (Fin 0.5)), (''f1_score'', JNum (Fin 0.5))]),
                       (''Voting Ensemble'',
                          JObj [(''accuracy'', JNum (Fin 0.875)), (''precision'', JNum (Fin 0.5)),
                                (''recall'', JNum (Fin 0.5)), (''f1_score'', JNum (Fin 0.5))])]"
  by (simp add: metricsOf_def votingOf_def loanResults_def get_def orElse_def)

theorem base_models_without_ensemble_witness:
  "get (get (get (classificationResults bareEnv ''loan'' [''id''] 0 loanResults) ''voting'')
         ''base_models'') ''Logistic Regression'' =
     JObj [(''accuracy'', JNum (Fin 0.5)), (''precision'', JNum (Fin 0.25)),
           (''recall'', JNum (Fin 0.125)), (''f1_score'', JNum (Fin 0))]
   \<and> ''Voting Ensemble'' \<notin> set (keys (get (get (classificationResults bareEnv ''loan'' [''id''] 0
          loanResults) ''voting'') ''base_models''))"
proof -
  note T = base_models_without_ensemble [where k = "''Logistic Regression''" and e = bareEnv
      and d = "''loan''" and h = "[''id'']" and n = 0 and py = loanResults
      and w = "''Ensemble''" and pre = "''Voting ''" and post = "[]"]
  have h: "''Logistic Regression'' \<in> set (keys (metricsOf (votingOf loanResults))) \<and>
      \<not> str_includes (toLowerCase ''Logistic Regression'') ''ensemble'' \<and>
      ''Logistic Regression'' \<noteq> ''__proto__''"
    by (simp add: loan_voting_metrics keys_def lower_logistic str_includes_def)
  have 1: "get (get (get (classificationResults bareEnv ''loan'' [''id''] 0 loanResults) ''voting'')
         ''base_models'') ''Logistic Regression'' =
     JObj [(''accuracy'', coalesce (get (get (metricsOf (votingOf loanResults)) ''Logistic Regression'') ''accuracy'') (JNum (Fin 0))),
                (''precision'', coalesce (get (get (metricsOf (votingOf loanResults)) ''Logistic Regression'') ''precision'') (JNum (Fin 0))),
                (''recall'', coalesce (get (get (metricsOf (votingOf loanResults)) ''Logistic Regression'') ''recall'') (JNum (Fin 0))),
                (''f1_score'', coalesce (get (get (metricsOf (votingOf loanResults)) ''Logistic Regression'') ''f1_score'') (JNum (Fin 0)))]"
    using T [THEN conjunct2, THEN conjunct2, THEN conjunct2, THEN conjunct1] h by (rule mp)
  have 2: "''Voting '' @ ''Ensemble'' @ [] \<notin> set (keys (get (get (classificationResults bareEnv ''loan'' [''id''] 0
          loanResults) ''voting'') ''base_models''))"
    using T [THEN conjunct2, THEN conjunct2, THEN conjunct1] lower_ensemble by blast
  show ?thesis
    using 1 2 by (simp add: loan_voting_metrics get_def coalesce_def)
qed

text \<open>
  Claim C8 as stated fails: the upstream metrics have the own key \<open>__proto__\<close>, which does
  not contain \<open>ensemble\<close>; the assignment \<open>out[key] = ...\<close> takes it for the prototype, and
  \<open>base_models\<close> has the other key only.
\<close>

theorem proto_key_counterexample:
  "normalise bareEnv ''loan'' [''id''] 0 protoResults =
     Inr (classificationResults bareEnv ''loan'' [''id''] 0 protoResults)
   \<and> keys (metricsOf (votingOf protoResults)) = [''__proto__'', ''Random Forest'']
   \<and> \<not> str_includes (toLowerCase ''__proto__'') ''ensemble''
   \<and> get (get (classificationResults bareEnv ''loan'' [''id''] 0 protoResults) ''voting'')
        ''base_models'' =
       JObj [(''Random Forest'',
              JObj [(''accuracy'', JNum (Fin 0.5)), (''precision'', JNum (Fin 0)),
                    (''recall'', JNum (Fin 0)), (''f1_score'', JNum (Fin 0))])]"
proof -
  have n: "normalise bareEnv ''loan'' [''id''] 0 protoResults =
     Inr (classificationResults bareEnv ''loan'' [''id''] 0 protoResults)"
    by (simp add: normalise_def ensureDatasetInfo_def protoResults_def get_def)
  have m: "metricsOf (votingOf protoResults) =
      JObj [(''__proto__'', JObj [(''accuracy'', JNum (Fin 0.75))]),
            (''Random Forest'', JObj [(''accuracy'', JNum (Fin 0.5))])]"
    by (simp add: metricsOf_def votingOf_def protoResults_def get_def orElse_def)
  have b: "mapBase (JObj [(''__proto__'', JObj [(''accuracy'', JNum (Fin 0.75))]),
            (''Random Forest'', JObj [(''accuracy'', JNum (Fin 0.5))])]) =
      [(''Random Forest'',
              JObj [(''accuracy'', JNum (Fin 0.5)), (''precision'', JNum (Fin 0)),
                    (''recall'', JNum (Fin 0)), (''f1_score'', JNum (Fin 0))])]"
    by (simp add: mapBase_def mapBaseStep_def orElse_def keys_def lower_proto lower_forest
        str_includes_def setProp_def metricsEntry_def get_def coalesce_def)
  have e: "\<not> str_includes (toLowerCase ''__proto__'') ''ensemble''"
    by (simp add: lower_proto str_includes_def)
  show ?thesis
    unfolding voting_base_models m b using n e by (simp add: keys_def)
qed

section \<open>Missing metrics\<close>

lemma voting_performance:
  "get (get (classificationResults e d h n py) ''voting'') ''ensemble_performance'' =
     performance e (orElse (get (metricsOf (votingOf py)) ''Voting Ensemble'') (JObj []))
       (mapBase (metricsOf (votingOf py)))"
  by (simp add: classificationResults_def Let_def get_JObj)

lemma stacking_performance:
  "get (get (classificationResults e d h n py) ''stacking'') ''meta_model_performance'' =
     performance e (orElse (get (metricsOf (stackingOf py)) ''Stacking Ensemble'') (JObj []))
       (mapBase (metricsOf (stackingOf py)))"
  by (simp add: classificationResults_def Let_def get_JObj)

lemma performance_field:
  "f \<in> {''accuracy'', ''precision'', ''recall'', ''f1_score''} \<Longrightarrow>
     get (performance e ens base) f = coalesce (get ens f) (JNum (Fin 0))"
  by (auto simp: performance_def get_JObj)

lemma metricsEntry_field:
  "f \<in> {''accuracy'', ''precision'', ''recall'', ''f1_score''} \<Longrightarrow>
     get (metricsEntry u) f = coalesce (get u f) (JNum (Fin 0))"
  by (auto simp: metricsEntry_def get_JObj)

lemma base_model_field:
  assumes "f \<in> {''accuracy'', ''precision'', ''recall'', ''f1_score''}"
    and "k \<in> set (keys (JObj (mapBase m)))"
  shows "get (get (JObj (mapBase m)) k) f = coalesce (get (get m k) f) (JNum (Fin 0))"
proof -
  from assms(2) have "k \<in> set (keys m)" "\<not> str_includes (toLowerCase k) ''ensemble''"
      "k \<noteq> ''__proto__''"
    by (simp_all add: keys_mapBase)
  then have "get (JObj (mapBase m)) k = metricsEntry (get m k)"
    by (rule get_mapBase)
  then show ?thesis
    using metricsEntry_field [OF assms(1)] by simp
qed

lemma coalesce_number: "nullish u \<or> isNumber u \<Longrightarrow> isNumber (coalesce u (JNum (Fin 0)))"
  by (auto simp: coalesce_def)

lemma method_fields:
  "get (get (classificationResults e d h n py) ''voting'') ''feature_importance'' =
     orElse (get (votingOf py) ''feature_importance'') (JObj [])"
  "get (get (classificationResults e d h n py) ''voting'') ''predictions_sample'' =
     orElse (get (votingOf py) ''predictions_sample'') (JArr [])"
  "get (get (classificationResults e d h n py) ''stacking'') ''feature_importance'' =
     orElse (get (stackingOf py) ''feature_importance'') (JObj [])"
  "get (get (classificationResults e d h n py) ''stacking'') ''predictions_sample'' =
     orElse (get (stackingOf py) ''predictions_sample'') (JArr [])"
  by (simp_all add: classificationResults_def Let_def get_JObj)

text \<open>
  Claim C10 (amended). In the normalised classification result, each of the four metric
  fields of every base model and of \<open>ensemble_performance\<close> and \<open>meta_model_performance\<close> is
  the upstream value when that is neither missing nor \<open>null\<close>, and \<open>0\<close> otherwise; so the
  field is a number whenever the upstream value is a number, missing or \<open>null\<close>, and a
  missing metric cannot be told from a zero. \<open>feature_importance\<close> is the upstream value
  when that is truthy and an empty object otherwise; \<open>predictions_sample\<close> is the upstream
  value when truthy and an empty list otherwise.
\<close>

theorem missing_metrics_become_zero:
  assumes "f \<in> {''accuracy'', ''precision'', ''recall'', ''f1_score''}"
  shows
   "(let r = classificationResults e d h n py;
         vm = metricsOf (votingOf py); sm = metricsOf (stackingOf py);
         ve = orElse (get vm ''Voting Ensemble'') (JObj []);
         se = orElse (get sm ''Stacking Ensemble'') (JObj [])
     in (k \<in> set (keys (get (get r ''voting'') ''base_models'')) \<longrightarrow>
           get (get (get (get r ''voting'') ''base_models'') k) f =
             (if nullish (get (get vm k) f) then JNum (Fin 0) else get (get vm k) f) \<and>
           (nullish (get (get vm k) f) \<or> isNumber (get (get vm k) f) \<longrightarrow>
              isNumber (get (get (get (get r ''voting'') ''base_models'') k) f)))
      \<and> (k \<in> set (keys (get (get r ''stacking'') ''base_models'')) \<longrightarrow>
           get (get (get (get r ''stacking'') ''base_models'') k) f =
             (if nullish (get (get sm k) f) then JNum (Fin 0) else get (get sm k) f) \<and>
           (nullish (get (get sm k) f) \<or> isNumber (get (get sm k) f) \<longrightarrow>
              isNumber (get (get (get (get r ''stacking'') ''base_models'') k) f)))
      \<and> get (get (get r ''voting'') ''ensemble_performance'') f =
           (if nullish (get ve f) then JNum (Fin 0) else get ve f)
      \<and> (nullish (get ve f) \<or> isNumber (get ve f) \<longrightarrow>
           isNumber (get (get (get r ''voting'') ''ensemble_performance'') f))
      \<and> get (get (get r ''stacking'') ''meta_model_performance'') f =
           (if nullish (get se f) then JNum (Fin 0) else get se f)
      \<and> (nullish (get se f) \<or> isNumber (get se f) \<longrightarrow>
           isNumber (get (get (get r ''stacking'') ''meta_model_performance'') f))
      \<and> get (get r ''voting'') ''feature_importance'' =
           (if truthy (get (votingOf py) ''feature_importance'')
            then get (votingOf py) ''feature_importance'' else JObj [])
      \<and> get (get r ''voting'') ''predictions_sample'' =
           (if truthy (get (votingOf py) ''predictions_sample'')
            then get (votingOf py) ''predictions_sample'' else JArr [])
      \<and> get (get r ''stacking'') ''feature_importance'' =
           (if truthy (get (stackingOf py) ''feature_importance'')
            then get (stackingOf py) ''feature_importance'' else JObj [])
      \<and> get (get r ''stacking'') ''predictions_sample'' =
           (if truthy (get (stackingOf py) ''predictions_sample'')
            then get (stackingOf py) ''predictions_sample'' else JArr []))"
proof -
  note pf = performance_field [OF assms]
  have bm: "\<And>m k. k \<in> set (keys (JObj (mapBase m))) \<Longrightarrow>
      get (get (JObj (mapBase m)) k) f = coalesce (get (get m k) f) (JNum (Fin 0))"
    using base_model_field [OF assms] by blast
  have num: "\<And>u. nullish u \<or> isNumber u \<Longrightarrow> isNumber (coalesce u (JNum (Fin 0)))"
    by (rule coalesce_number)
  have co: "\<And>u. coalesce u (JNum (Fin 0)) = (if nullish u then JNum (Fin 0) else u)"
    by (simp add: coalesce_def)
  show ?thesis
    unfolding Let_def voting_base_models stacking_base_models voting_performance
      stacking_performance method_fields pf
    using bm num by (simp add: co orElse_def)
qed

theorem missing_metrics_become_zero_witness:
  "get (get (get (get (classificationResults bareEnv ''loan'' [''id''] 0 loanResults) ''voting'')
         ''base_models'') ''Logistic Regression'') ''f1_score'' = JNum (Fin 0)
   \<and> isNumber (get (get (get (get (classificationResults bareEnv ''loan'' [''id''] 0 loanResults)
         ''voting'') ''base_models'') ''Logistic Regression'') ''f1_score'')
   \<and> get (get (classificationResults bareEnv ''loan'' [''id''] 0 loanResults) ''voting'')
         ''feature_importance'' = JObj []"
proof -
  have f: "''f1_score'' \<in> {''accuracy'', ''precision'', ''recall'', ''f1_score''}" by simp
  note T = missing_metrics_become_zero [OF f, where k = "''Logistic Regression''" and e = bareEnv
      and d = "''loan''" and h = "[''id'']" and n = 0 and py = loanResults, unfolded Let_def]
  have k: "''Logistic Regression'' \<in> set (keys (get (get (classificationResults bareEnv ''loan''
      [''id''] 0 loanResults) ''voting'') ''base_models''))"
    unfolding voting_base_models keys_mapBase
    by (simp add: loan_voting_metrics keys_def lower_logistic str_includes_def)
  have u: "get (get (metricsOf (votingOf loanResults)) ''Logistic Regression'') ''f1_score'' = JUndef"
    by (simp add: loan_voting_metrics get_def)
  from T [THEN conjunct1] k u
  have 1: "get (get (get (get (classificationResults bareEnv ''loan'' [''id''] 0 loanResults) ''voting'')
         ''base_models'') ''Logistic Regression'') ''f1_score'' = JNum (Fin 0)"
    and 2: "isNumber (get (get (get (get (classificationResults bareEnv ''loan'' [''id''] 0 loanResults)
         ''voting'') ''base_models'') ''Logistic Regression'') ''f1_score'')"
    by simp_all
  have v: "get (votingOf loanResults) ''feature_importance'' = JUndef"
    by (simp add: votingOf_def loanResults_def get_def orElse_def)
  from T [THEN conjunct2, THEN conjunct2, THEN conjunct2, THEN conjunct2, THEN conjunct2,
      THEN conjunct2, THEN conjunct1] v
  have 3: "get (get (classificationResults bareEnv ''loan'' [''id''] 0 loanResults) ''voting'')
         ''feature_importance'' = JObj []"
    by simp
  from 1 2 3 show ?thesis by blast
qed

text \<open>
  Claim C10 as stated fails: the pipeline's output passes the checks of the
  classification path, and the accuracy of a base model in the normalised result is the
  text \<open>high\<close>, not a number. Only \<open>null\<close> and \<open>undefined\<close> are replaced.
\<close>

theorem text_metric_counterexample:
  "normalise bareEnv ''loan'' [''id''] 0 textMetricResults =
     Inr (classificationResults bareEnv ''loan'' [''id''] 0 textMetricResults)
   \<and> get (get (get (get (classificationResults bareEnv ''loan'' [''id''] 0 textMetricResults)
        ''voting'') ''base_models'') ''Logistic Regression'') ''accuracy'' = JStr ''high''
   \<and> \<not> isNumber (get (get (get (get (classificationResults bareEnv ''loan'' [''id''] 0
        textMetricResults) ''voting'') ''base_models'') ''Logistic Regression'') ''accuracy'')"
proof -
  have n: "normalise bareEnv ''loan'' [''id''] 0 textMetricResults =
     Inr (classificationResults bareEnv ''loan'' [''id''] 0 textMetricResults)"
    by (simp add: normalise_def ensureDatasetInfo_def textMetricResults_def get_def)
  have m: "metricsOf (votingOf textMetricResults) =
      JObj [(''Logistic Regression'', JObj [(''accuracy'', JStr ''high'')])]"
    by (simp add: metricsOf_def votingOf_def textMetricResults_def get_def orElse_def)
  have "mapBase (JObj [(''Logistic Regression'', JObj [(''accuracy'', JStr ''high'')])]) =
      [(''Logistic Regression'', JObj [(''accuracy'', JStr ''high''), (''precision'', JNum (Fin 0)),
          (''recall'', JNum (Fin 0)), (''f1_score'', JNum (Fin 0))])]"
    by (simp add: mapBase_def mapBaseStep_def orElse_def keys_def lower_logistic str_includes_def
        setProp_def metricsEntry_def get_def coalesce_def)
  then have "get (get (get (get (classificationResults bareEnv ''loan'' [''id''] 0 textMetricResults)
        ''voting'') ''base_models'') ''Logistic Regression'') ''accuracy'' = JStr ''high''"
    unfolding voting_base_models m by (simp add: get_def)
  with n show ?thesis by simp
qed

section \<open>Improvement over the best base model\<close>

lemma foldl_num_max_Fin: "foldl num_max (Fin y) (map Fin ys) = Fin (foldl max y ys)"
  by (induction ys arbitrary: y) simp_all

lemma foldl_max_Max: "foldl max (y :: real) ys = Max (set (y # ys))"
proof -
  have "(\<lambda>x s. max s x) = (max :: real \<Rightarrow> real \<Rightarrow> real)"
    by (intro ext) (simp add: max.commute)
  then have "foldl max y ys = fold max ys y"
    by (simp add: foldl_conv_fold)
  then show ?thesis using Max.set_eq_fold [of y ys] by simp
qed

lemma distinct_mapBase_fold:
  "distinct (map fst acc) \<Longrightarrow> distinct (map fst (foldl (mapBaseStep m) acc ks))"
  by (induction ks arbitrary: acc) (simp_all add: mapBaseStep_def setProp_def distinct_update)

lemma distinct_mapBase: "distinct (map fst (mapBase m))"
  by (simp add: mapBase_def distinct_mapBase_fold)

lemma values_by_key:
  assumes "distinct (map fst kvs)"
  shows "(\<lambda>k. get (JObj kvs) k) ` set (keys (JObj kvs)) = set (map snd kvs)"
proof -
  have "\<And>k v. (k, v) \<in> set kvs \<Longrightarrow> get (JObj kvs) k = v"
    using assms by (simp add: get_def)
  then show ?thesis
    by (force simp: keys_def image_iff)
qed

lemma finite_by_key:
  assumes "distinct (map fst kvs)"
  shows "{x. \<exists>k \<in> set (keys (JObj kvs)). get (get (JObj kvs) k) f = JNum (Fin x)} =
         {x. \<exists>m \<in> set (map snd kvs). get m f = JNum (Fin x)}"
    and "(\<forall>k \<in> set (keys (JObj kvs)). \<exists>x. get (get (JObj kvs) k) f = JNum (Fin x)) \<longleftrightarrow>
         (\<forall>m \<in> set (map snd kvs). \<exists>x. get m f = JNum (Fin x))"
proof -
  note v = values_by_key [OF assms, symmetric]
  show "{x. \<exists>k \<in> set (keys (JObj kvs)). get (get (JObj kvs) k) f = JNum (Fin x)} =
         {x. \<exists>m \<in> set (map snd kvs). get m f = JNum (Fin x)}"
    unfolding v by blast
  show "(\<forall>k \<in> set (keys (JObj kvs)). \<exists>x. get (get (JObj kvs) k) f = JNum (Fin x)) \<longleftrightarrow>
         (\<forall>m \<in> set (map snd kvs). \<exists>x. get m f = JNum (Fin x))"
    unfolding v by blast
qed

lemma finite_accuracies:
  assumes "\<forall>m \<in> set ms. \<exists>x. get m f = JNum (Fin x)"
  shows "\<exists>xs. map (toNumber e) (map (\<lambda>m. orElse (get m f) (JNum (Fin 0))) ms) = map Fin xs \<and>
              set xs = {x. \<exists>m \<in> set ms. get m f = JNum (Fin x)} \<and> length xs = length ms"
  using assms
proof (induction ms)
  case Nil
  show ?case by simp
next
  case (Cons m ms)
  then obtain x where x: "get m f = JNum (Fin x)" by auto
  from Cons obtain xs where xs:
    "map (toNumber e) (map (\<lambda>m. orElse (get m f) (JNum (Fin 0))) ms) = map Fin xs"
    "set xs = {x. \<exists>m \<in> set ms. get m f = JNum (Fin x)}" "length xs = length ms"
    by auto
  have "toNumber e (orElse (get m f) (JNum (Fin 0))) = Fin x"
    using x by (simp add: orElse_def)
  moreover have "set (x # xs) = {y. \<exists>m' \<in> set (m # ms). get m' f = JNum (Fin y)}"
    using x xs(2) by auto
  ultimately show ?case
    using xs(1,3) by (intro exI [of _ "x # xs"]) simp
qed

lemma bestBase_value:
  assumes "base \<noteq> []" "\<forall>m \<in> set (map snd base). \<exists>x. get m ''accuracy'' = JNum (Fin x)"
  shows "bestBase e base =
         Fin (Max {x. \<exists>m \<in> set (map snd base). get m ''accuracy'' = JNum (Fin x)})"
proof -
  let ?vals = "map (\<lambda>m. orElse (get m ''accuracy'') (JNum (Fin 0))) (map snd base)"
  from finite_accuracies [OF assms(2), of e] obtain xs where xs:
    "map (toNumber e) ?vals = map Fin xs"
    "set xs = {x. \<exists>m \<in> set (map snd base). get m ''accuracy'' = JNum (Fin x)}"
    "length xs = length (map snd base)"
    by blast
  from assms(1) obtain v vs where vals: "?vals = v # vs" by (cases base) auto
  with xs(1) obtain y ys where ys: "xs = y # ys" "toNumber e v = Fin y"
      "map (toNumber e) vs = map Fin ys"
    by (cases xs) auto
  have "bestBase e base = foldl num_max (toNumber e v) (map (toNumber e) vs)"
    using vals by (simp add: bestBase_def Let_def)
  also have "\<dots> = Fin (foldl max y ys)" using ys by (simp add: foldl_num_max_Fin)
  also have "\<dots> = Fin (Max (set xs))" using ys(1) by (simp only: foldl_max_Max)
  finally show ?thesis using xs(2) by simp
qed

lemma get_number_truthy: "get v k = JNum n \<Longrightarrow> orElse v (JObj []) = v"
proof (cases v)
  case (JStr s)
  assume "get v k = JNum n"
  with JStr have "s \<noteq> []" by (auto simp: get_def)
  with JStr show ?thesis by (simp add: orElse_def)
qed (simp_all add: get_def orElse_def)

lemma rounding_tolerance:
  "\<bar>s - d\<bar> \<le> \<delta> \<Longrightarrow> \<bar>t - s * 100\<bar> \<le> \<delta> \<Longrightarrow> \<bar>t - d * 100\<bar> \<le> 101 * (\<delta> :: real)"
  by (simp add: abs_le_iff)

lemma method_improvement:
  assumes "distinct (map fst base)" "get ens ''accuracy'' = JNum (Fin a)"
    "keys (JObj base) \<noteq> []"
    "\<forall>k \<in> set (keys (JObj base)). \<exists>x. get (get (JObj base) k) ''accuracy'' = JNum (Fin x)"
  shows
    "get (performance e (orElse ens (JObj [])) base) ''accuracy'' = JNum (Fin a)"
    "get (performance e (orElse ens (JObj [])) base) ''raw_improvement'' =
       JNum (num_mul e (num_sub e (Fin a)
         (Fin (Max {x. \<exists>k \<in> set (keys (JObj base)).
                      get (get (JObj base) k) ''accuracy'' = JNum (Fin x)}))) (Fin 100))"
    "get (performance e (orElse ens (JObj [])) base) ''improvement_over_best_base'' =
       JStr (case num_mul e (num_sub e (Fin a)
         (Fin (Max {x. \<exists>k \<in> set (keys (JObj base)).
                      get (get (JObj base) k) ''accuracy'' = JNum (Fin x)}))) (Fin 100) of
               Fin x \<Rightarrow> toFixed1 e x @ ''%'' | NaN \<Rightarrow> ''0%'' | PosInf \<Rightarrow> ''0%''
             | NegInf \<Rightarrow> ''0%'')"
proof -
  have o: "orElse ens (JObj []) = ens" using assms(2) by (rule get_number_truthy)
  have ne: "base \<noteq> []" using assms(3) by (simp add: keys_def)
  have all: "\<forall>m \<in> set (map snd base). \<exists>x. get m ''accuracy'' = JNum (Fin x)"
    using assms(4) unfolding finite_by_key(2) [OF assms(1)] .
  have i: "impRaw e ens base =
      num_mul e (num_sub e (Fin a)
         (Fin (Max {x. \<exists>k \<in> set (keys (JObj base)).
                      get (get (JObj base) k) ''accuracy'' = JNum (Fin x)}))) (Fin 100)"
    unfolding finite_by_key(1) [OF assms(1)]
    using assms(2) by (simp add: impRaw_def bestBase_value [OF ne all])
  show "get (performance e (orElse ens (JObj [])) base) ''accuracy'' = JNum (Fin a)"
    unfolding o using assms(2) by (simp add: performance_def get_JObj coalesce_def)
  show "get (performance e (orElse ens (JObj [])) base) ''raw_improvement'' =
       JNum (num_mul e (num_sub e (Fin a)
         (Fin (Max {x. \<exists>k \<in> set (keys (JObj base)).
                      get (get (JObj base) k) ''accuracy'' = JNum (Fin x)}))) (Fin 100))"
    unfolding o i [symmetric] by (simp add: performance_def get_JObj)
  show "get (performance e (orElse ens (JObj [])) base) ''improvement_over_best_base'' =
       JStr (case num_mul e (num_sub e (Fin a)
         (Fin (Max {x. \<exists>k \<in> set (keys (JObj base)).
                      get (get (JObj base) k) ''accuracy'' = JNum (Fin x)}))) (Fin 100) of
               Fin x \<Rightarrow> toFixed1 e x @ ''%'' | NaN \<Rightarrow> ''0%'' | PosInf \<Rightarrow> ''0%''
             | NegInf \<Rightarrow> ''0%'')"
    unfolding o i [symmetric] by (simp add: performance_def get_JObj fmtImp_def)
qed

lemma machine_result:
  "fl e (a - best) = Fin s \<Longrightarrow> fl e (s * 100) = Fin t \<Longrightarrow>
     num_mul e (num_sub e (Fin a) (Fin best)) (Fin 100) = Fin t"
  by simp

lemma numericValues_skip:
  assumes "\<forall>x. v \<noteq> JNum (Fin x)" "v \<noteq> JNum PosInf" "v \<noteq> JNum NegInf"
  shows "numericValues (v # vs) = numericValues vs"
proof (cases v)
  case (JNum n)
  with assms show ?thesis by (cases n) simp_all
qed simp_all

lemma numeric_values:
  assumes "\<forall>v \<in> set vs. v \<noteq> JNum PosInf \<and> v \<noteq> JNum NegInf"
  shows "\<exists>xs. numericValues vs = map Fin xs \<and> set xs = {x. JNum (Fin x) \<in> set vs}"
  using assms
proof (induction vs)
  case Nil
  show ?case by simp
next
  case (Cons v vs)
  then obtain xs where xs: "numericValues vs = map Fin xs"
      "set xs = {x. JNum (Fin x) \<in> set vs}"
    by auto
  show ?case
  proof (cases "\<exists>x. v = JNum (Fin x)")
    case True
    then obtain x where "v = JNum (Fin x)" ..
    with xs show ?thesis
      by (intro exI [of _ "x # xs"]) auto
  next
    case False
    with Cons.prems have "numericValues (v # vs) = numericValues vs"
      by (intro numericValues_skip) simp_all
    with xs False show ?thesis
      by (intro exI [of _ xs]) auto
  qed
qed

lemma derived_value:
  assumes "get ens (if c then ''accuracy'' else ''r2_score'') = JNum (Fin v)"
    "\<exists>k \<in> {pk, ''Random Forest'', ''XGBoost''}.
        \<exists>x. get (get bme k) (if c then ''accuracy'' else ''r2_score'') = JNum (Fin x)"
    "\<forall>k \<in> {pk, ''Random Forest'', ''XGBoost''}.
        get (get bme k) (if c then ''accuracy'' else ''r2_score'') \<noteq> JNum PosInf \<and>
        get (get bme k) (if c then ''accuracy'' else ''r2_score'') \<noteq> JNum NegInf"
  shows "derivedImprovement e c pk bme ens =
     Some (num_mul e (num_sub e (Fin v)
             (Fin (Max {x. \<exists>k \<in> {pk, ''Random Forest'', ''XGBoost''}.
                 get (get bme k) (if c then ''accuracy'' else ''r2_score'') = JNum (Fin x)})))
             (Fin 100),
           (case num_mul e (num_sub e (Fin v)
             (Fin (Max {x. \<exists>k \<in> {pk, ''Random Forest'', ''XGBoost''}.
                 get (get bme k) (if c then ''accuracy'' else ''r2_score'') = JNum (Fin x)})))
             (Fin 100) of
              Fin x \<Rightarrow> toFixed1 e x | NaN \<Rightarrow> ''NaN'' | PosInf \<Rightarrow> ''Infinity''
            | NegInf \<Rightarrow> ''-Infinity'') @ ''%'')"
proof -
  let ?key = "if c then ''accuracy'' else ''r2_score''"
  let ?vs = "map (\<lambda>key. get (get bme key) ?key) [pk, ''Random Forest'', ''XGBoost'']"
  have "\<forall>v \<in> set ?vs. v \<noteq> JNum PosInf \<and> v \<noteq> JNum NegInf"
    using assms(3) by simp
  from numeric_values [OF this] obtain xs where xs:
    "numericValues ?vs = map Fin xs" "set xs = {x. JNum (Fin x) \<in> set ?vs}"
    by blast
  have s: "{x. JNum (Fin x) \<in> set ?vs} =
      {x. \<exists>k \<in> {pk, ''Random Forest'', ''XGBoost''}. get (get bme k) ?key = JNum (Fin x)}"
    by auto
  from assms(2) xs(2) s have "xs \<noteq> []" by auto
  then obtain y ys where ys: "xs = y # ys" by (cases xs) auto
  have m: "foldl num_max (Fin y) (map Fin ys) = Fin (Max (set xs))"
    unfolding ys foldl_num_max_Fin foldl_max_Max ..
  show ?thesis
    using assms(1) xs(1) m
    unfolding derivedImprovement_def Let_def toFixedText_def s [symmetric] xs(2) [symmetric]
    by (simp add: ys)
qed

lemma machine_tolerance:
  "fl e (a - best) = Fin s \<and> fl e (s * 100) = Fin t \<longrightarrow>
     num_mul e (num_sub e (Fin a) (Fin best)) (Fin 100) = Fin t \<and>
     (\<bar>s - (a - best)\<bar> \<le> \<delta> \<and> \<bar>t - s * 100\<bar> \<le> \<delta> \<longrightarrow>
        \<bar>t - (a - best) * 100\<bar> \<le> 101 * \<delta>)"
  using machine_result [of e a best s t] rounding_tolerance [of s "a - best" \<delta> t] by blast

text \<open>
  Claim C2 (amended). In the normalised classification result, for voting and for
  stacking alike: when the upstream accuracy of the ensemble is a finite number and every
  base model of the result has a finite number as accuracy (there being at least one),
  the accuracy of the performance object is the ensemble's, \<open>raw_improvement\<close> is the
  ensemble's accuracy minus the greatest accuracy among the base models of the result,
  times 100, both operations being those of the machine, and
  \<open>improvement_over_best_base\<close> is that number printed with one decimal and a percent
  sign when it is finite and the text \<open>0%\<close> when it is not. When the machine returns a
  finite number for the difference and for the product, \<open>raw_improvement\<close> is the latter,
  and when each lies within \<open>\<delta>\<close> of the exact result, \<open>raw_improvement\<close> lies within
  \<open>101 * \<delta>\<close> of the exact improvement. In the dashboard, when the performance object
  carries no number as \<open>raw_improvement\<close>, its metric (\<open>accuracy\<close> for classification,
  \<open>r2_score\<close> for regression) is a finite number, at least one of the primary model,
  \<open>Random Forest\<close> and \<open>XGBoost\<close> has a finite number as metric and none has an infinite
  one, the improvement is derived by the same formula from the greatest metric among
  these three, and its text is the number printed with one decimal and a percent sign.
\<close>

theorem improvement_over_best_base:
  "(let r = classificationResults e d h n py;
        bm = get (get r ''voting'') ''base_models'';
        perf = get (get r ''voting'') ''ensemble_performance'';
        best = Max {x. \<exists>k \<in> set (keys bm). get (get bm k) ''accuracy'' = JNum (Fin x)};
        raw = num_mul e (num_sub e (Fin a) (Fin best)) (Fin 100)
    in get (get (metricsOf (votingOf py)) ''Voting Ensemble'') ''accuracy'' = JNum (Fin a) \<and>
       keys bm \<noteq> [] \<and>
       (\<forall>k \<in> set (keys bm). \<exists>x. get (get bm k) ''accuracy'' = JNum (Fin x)) \<longrightarrow>
         get perf ''accuracy'' = JNum (Fin a) \<and>
         get perf ''raw_improvement'' = JNum raw \<and>
         get perf ''improvement_over_best_base'' =
           JStr (case raw of Fin x \<Rightarrow> toFixed1 e x @ ''%'' | NaN \<Rightarrow> ''0%''
                 | PosInf \<Rightarrow> ''0%'' | NegInf \<Rightarrow> ''0%'') \<and>
         (fl e (a - best) = Fin sv \<and> fl e (sv * 100) = Fin tv \<longrightarrow>
            raw = Fin tv \<and>
            (\<bar>sv - (a - best)\<bar> \<le> \<delta> \<and> \<bar>tv - sv * 100\<bar> \<le> \<delta> \<longrightarrow>
               \<bar>tv - (a - best) * 100\<bar> \<le> 101 * \<delta>)))
   \<and> (let r = classificationResults e d h n py;
        bm = get (get r ''stacking'') ''base_models'';
        perf = get (get r ''stacking'') ''meta_model_performance'';
        best = Max {x. \<exists>k \<in> set (keys bm). get (get bm k) ''accuracy'' = JNum (Fin x)};
        raw = num_mul e (num_sub e (Fin b) (Fin best)) (Fin 100)
    in get (get (metricsOf (stackingOf py)) ''Stacking Ensemble'') ''accuracy'' = JNum (Fin b) \<and>
       keys bm \<noteq> [] \<and>
       (\<forall>k \<in> set (keys bm). \<exists>x. get (get bm k) ''accuracy'' = JNum (Fin x)) \<longrightarrow>
         get perf ''accuracy'' = JNum (Fin b) \<and>
         get perf ''raw_improvement'' = JNum raw \<and>
         get perf ''improvement_over_best_base'' =
           JStr (case raw of Fin x \<Rightarrow> toFixed1 e x @ ''%'' | NaN \<Rightarrow> ''0%''
                 | PosInf \<Rightarrow> ''0%'' | NegInf \<Rightarrow> ''0%'') \<and>
         (fl e (b - best) = Fin ss \<and> fl e (ss * 100) = Fin ts \<longrightarrow>
            raw = Fin ts \<and>
            (\<bar>ss - (b - best)\<bar> \<le> \<delta> \<and> \<bar>ts - ss * 100\<bar> \<le> \<delta> \<longrightarrow>
               \<bar>ts - (b - best) * 100\<bar> \<le> 101 * \<delta>)))
   \<and> (let key = (if c then ''accuracy'' else ''r2_score'');
        best = Max {x. \<exists>k \<in> {pk, ''Random Forest'', ''XGBoost''}.
                         get (get bme k) key = JNum (Fin x)};
        raw = num_mul e (num_sub e (Fin v) (Fin best)) (Fin 100)
    in \<not> isNumber (get ens ''raw_improvement'') \<and>
       get ens key = JNum (Fin v) \<and>
       (\<exists>k \<in> {pk, ''Random Forest'', ''XGBoost''}. \<exists>x. get (get bme k) key = JNum (Fin x)) \<and>
       (\<forall>k \<in> {pk, ''Random Forest'', ''XGBoost''}.
           get (get bme k) key \<noteq> JNum PosInf \<and> get (get bme k) key \<noteq> JNum NegInf) \<longrightarrow>
         derivedImprovement e c pk bme ens =
           Some (raw, (case raw of Fin x \<Rightarrow> toFixed1 e x | NaN \<Rightarrow> ''NaN''
                       | PosInf \<Rightarrow> ''Infinity'' | NegInf \<Rightarrow> ''-Infinity'') @ ''%'') \<and>
         improvementRaw e c pk bme ens = Some raw \<and>
         (fl e (v - best) = Fin sd \<and> fl e (sd * 100) = Fin td \<longrightarrow>
            raw = Fin td \<and>
            (\<bar>sd - (v - best)\<bar> \<le> \<delta> \<and> \<bar>td - sd * 100\<bar> \<le> \<delta> \<longrightarrow>
               \<bar>td - (v - best) * 100\<bar> \<le> 101 * \<delta>)))"
proof (intro conjI)
  show "let r = classificationResults e d h n py;
        bm = get (get r ''voting'') ''base_models'';
        perf = get (get r ''voting'') ''ensemble_performance'';
        best = Max {x. \<exists>k \<in> set (keys bm). get (get bm k) ''accuracy'' = JNum (Fin x)};
        raw = num_mul e (num_sub e (Fin a) (Fin best)) (Fin 100)
    in get (get (metricsOf (votingOf py)) ''Voting Ensemble'') ''accuracy'' = JNum (Fin a) \<and>
       keys bm \<noteq> [] \<and>
       (\<forall>k \<in> set (keys bm). \<exists>x. get (get bm k) ''accuracy'' = JNum (Fin x)) \<longrightarrow>
         get perf ''accuracy'' = JNum (Fin a) \<and>
         get perf ''raw_improvement'' = JNum raw \<and>
         get perf ''improvement_over_best_base'' =
           JStr (case raw of Fin x \<Rightarrow> toFixed1 e x @ ''%'' | NaN \<Rightarrow> ''0%''
                 | PosInf \<Rightarrow> ''0%'' | NegInf \<Rightarrow> ''0%'') \<and>
         (fl e (a - best) = Fin sv \<and> fl e (sv * 100) = Fin tv \<longrightarrow>
            raw = Fin tv \<and>
            (\<bar>sv - (a - best)\<bar> \<le> \<delta> \<and> \<bar>tv - sv * 100\<bar> \<le> \<delta> \<longrightarrow>
               \<bar>tv - (a - best) * 100\<bar> \<le> 101 * \<delta>))"
    unfolding Let_def voting_base_models voting_performance
  proof (intro impI, elim conjE, intro conjI)
    assume h: "get (get (metricsOf (votingOf py)) ''Voting Ensemble'') ''accuracy'' = JNum (Fin a)"
      "keys (JObj (mapBase (metricsOf (votingOf py)))) \<noteq> []"
      "\<forall>k \<in> set (keys (JObj (mapBase (metricsOf (votingOf py))))).
          \<exists>x. get (get (JObj (mapBase (metricsOf (votingOf py)))) k) ''accuracy'' = JNum (Fin x)"
    note M = method_improvement [OF distinct_mapBase h, of e]
    show "get (performance e (orElse (get (metricsOf (votingOf py)) ''Voting Ensemble'') (JObj []))
        (mapBase (metricsOf (votingOf py)))) ''accuracy'' = JNum (Fin a)"
      by (rule M(1))
    show "get (performance e (orElse (get (metricsOf (votingOf py)) ''Voting Ensemble'') (JObj []))
        (mapBase (metricsOf (votingOf py)))) ''raw_improvement'' =
       JNum (num_mul e (num_sub e (Fin a)
         (Fin (Max {x. \<exists>k \<in> set (keys (JObj (mapBase (metricsOf (votingOf py))))).
            get (get (JObj (mapBase (metricsOf (votingOf py)))) k) ''accuracy'' = JNum (Fin x)})))
         (Fin 100))"
      by (rule M(2))
    show "get (performance e (orElse (get (metricsOf (votingOf py)) ''Voting Ensemble'') (JObj []))
        (mapBase (metricsOf (votingOf py)))) ''improvement_over_best_base'' =
       JStr (case num_mul e (num_sub e (Fin a)
         (Fin (Max {x. \<exists>k \<in> set (keys (JObj (mapBase (metricsOf (votingOf py))))).
            get (get (JObj (mapBase (metricsOf (votingOf py)))) k) ''accuracy'' = JNum (Fin x)})))
         (Fin 100) of
               Fin x \<Rightarrow> toFixed1 e x @ ''%'' | NaN \<Rightarrow> ''0%'' | PosInf \<Rightarrow> ''0%''
             | NegInf \<Rightarrow> ''0%'')"
      by (rule M(3))
  qed (rule machine_tolerance)
  show "let r = classificationResults e d h n py;
        bm = get (get r ''stacking'') ''base_models'';
        perf = get (get r ''stacking'') ''meta_model_performance'';
        best = Max {x. \<exists>k \<in> set (keys bm). get (get bm k) ''accuracy'' = JNum (Fin x)};
        raw = num_mul e (num_sub e (Fin b) (Fin best)) (Fin 100)
    in get (get (metricsOf (stackingOf py)) ''Stacking Ensemble'') ''accuracy'' = JNum (Fin b) \<and>
       keys bm \<noteq> [] \<and>
       (\<forall>k \<in> set (keys bm). \<exists>x. get (get bm k) ''accuracy'' = JNum (Fin x)) \<longrightarrow>
         get perf ''accuracy'' = JNum (Fin b) \<and>
         get perf ''raw_improvement'' = JNum raw \<and>
         get perf ''improvement_over_best_base'' =
           JStr (case raw of Fin x \<Rightarrow> toFixed1 e x @ ''%'' | NaN \<Rightarrow> ''0%''
                 | PosInf \<Rightarrow> ''0%'' | NegInf \<Rightarrow> ''0%'') \<and>
         (fl e (b - best) = Fin ss \<and> fl e (ss * 100) = Fin ts \<longrightarrow>
            raw = Fin ts \<and>
            (\<bar>ss - (b - best)\<bar> \<le> \<delta> \<and> \<bar>ts - ss * 100\<bar> \<le> \<delta> \<longrightarrow>
               \<bar>ts - (b - best) * 100\<bar> \<le> 101 * \<delta>))"
    unfolding Let_def stacking_base_models stacking_performance
  proof (intro impI, elim conjE, intro conjI)
    assume h: "get (get (metricsOf (stackingOf py)) ''Stacking Ensemble'') ''accuracy'' = JNum (Fin b)"
      "keys (JObj (mapBase (metricsOf (stackingOf py)))) \<noteq> []"
      "\<forall>k \<in> set (keys (JObj (mapBase (metricsOf (stackingOf py))))).
          \<exists>x. get (get (JObj (mapBase (metricsOf (stackingOf py)))) k) ''accuracy'' = JNum (Fin x)"
    note M = method_improvement [OF distinct_mapBase h, of e]
    show "get (performance e (orElse (get (metricsOf (stackingOf py)) ''Stacking Ensemble'') (JObj []))
        (mapBase (metricsOf (stackingOf py)))) ''accuracy'' = JNum (Fin b)"
      by (rule M(1))
    show "get (performance e (orElse (get (metricsOf (stackingOf py)) ''Stacking Ensemble'') (JObj []))
        (mapBase (metricsOf (stackingOf py)))) ''raw_improvement'' =
       JNum (num_mul e (num_sub e (Fin b)
         (Fin (Max {x. \<exists>k \<in> set (keys (JObj (mapBase (metricsOf (stackingOf py))))).
            get (get (JObj (mapBase (metricsOf (stackingOf py)))) k) ''accuracy'' = JNum (Fin x)})))
         (Fin 100))"
      by (rule M(2))
    show "get (performance e (orElse (get (metricsOf (stackingOf py)) ''Stacking Ensemble'') (JObj []))
        (mapBase (metricsOf (stackingOf py)))) ''improvement_over_best_base'' =
       JStr (case num_mul e (num_sub e (Fin b)
         (Fin (Max {x. \<exists>k \<in> set (keys (JObj (mapBase (metricsOf (stackingOf py))))).
            get (get (JObj (mapBase (metricsOf (stackingOf py)))) k) ''accuracy'' = JNum (Fin x)})))
         (Fin 100) of
               Fin x \<Rightarrow> toFixed1 e x @ ''%'' | NaN \<Rightarrow> ''0%'' | PosInf \<Rightarrow> ''0%''
             | NegInf \<Rightarrow> ''0%'')"
      by (rule M(3))
  qed (rule machine_tolerance)
  show "let key = (if c then ''accuracy'' else ''r2_score'');
        best = Max {x. \<exists>k \<in> {pk, ''Random Forest'', ''XGBoost''}.
                         get (get bme k) key = JNum (Fin x)};
        raw = num_mul e (num_sub e (Fin v) (Fin best)) (Fin 100)
    in \<not> isNumber (get ens ''raw_improvement'') \<and>
       get ens key = JNum (Fin v) \<and>
       (\<exists>k \<in> {pk, ''Random Forest'', ''XGBoost''}. \<exists>x. get (get bme k) key = JNum (Fin x)) \<and>
       (\<forall>k \<in> {pk, ''Random Forest'', ''XGBoost''}.
           get (get bme k) key \<noteq> JNum PosInf \<and> get (get bme k) key \<noteq> JNum NegInf) \<longrightarrow>
         derivedImprovement e c pk bme ens =
           Some (raw, (case raw of Fin x \<Rightarrow> toFixed1 e x | NaN \<Rightarrow> ''NaN''
                       | PosInf \<Rightarrow> ''Infinity'' | NegInf \<Rightarrow> ''-Infinity'') @ ''%'') \<and>
         improvementRaw e c pk bme ens = Some raw \<and>
         (fl e (v - best) = Fin sd \<and> fl e (sd * 100) = Fin td \<longrightarrow>
            raw = Fin td \<and>
            (\<bar>sd - (v - best)\<bar> \<le> \<delta> \<and> \<bar>td - sd * 100\<bar> \<le> \<delta> \<longrightarrow>
               \<bar>td - (v - best) * 100\<bar> \<le> 101 * \<delta>))"
    unfolding Let_def
  proof (intro impI, elim conjE)
    assume h: "\<not> isNumber (get ens ''raw_improvement'')"
      "get ens (if c then ''accuracy'' else ''r2_score'') = JNum (Fin v)"
      "\<exists>k \<in> {pk, ''Random Forest'', ''XGBoost''}.
          \<exists>x. get (get bme k) (if c then ''accuracy'' else ''r2_score'') = JNum (Fin x)"
      "\<forall>k \<in> {pk, ''Random Forest'', ''XGBoost''}.
          get (get bme k) (if c then ''accuracy'' else ''r2_score'') \<noteq> JNum PosInf \<and>
          get (get bme k) (if c then ''accuracy'' else ''r2_score'') \<noteq> JNum NegInf"
    note D = derived_value [OF h(2,3,4), of e]
    from h(1) have "improvementRaw e c pk bme ens =
        map_option fst (derivedImprovement e c pk bme ens)"
      by (cases "get ens ''raw_improvement''") (simp_all add: improvementRaw_def)
    then have I: "improvementRaw e c pk bme ens =
        Some (num_mul e (num_sub e (Fin v)
             (Fin (Max {x. \<exists>k \<in> {pk, ''Random Forest'', ''XGBoost''}.
                 get (get bme k) (if c then ''accuracy'' else ''r2_score'') = JNum (Fin x)})))
             (Fin 100))"
      unfolding D by simp
    show "derivedImprovement e c pk bme ens =
      Some (num_mul e (num_sub e (Fin v)
             (Fin (Max {x. \<exists>k \<in> {pk, ''Random Forest'', ''XGBoost''}.
                 get (get bme k) (if c then ''accuracy'' else ''r2_score'') = JNum (Fin x)})))
             (Fin 100),
           (case num_mul e (num_sub e (Fin v)
             (Fin (Max {x. \<exists>k \<in> {pk, ''Random Forest'', ''XGBoost''}.
                 get (get bme k) (if c then ''accuracy'' else ''r2_score'') = JNum (Fin x)})))
             (Fin 100) of
              Fin x \<Rightarrow> toFixed1 e x | NaN \<Rightarrow> ''NaN'' | PosInf \<Rightarrow> ''Infinity''
            | NegInf \<Rightarrow> ''-Infinity'') @ ''%'') \<and>
      improvementRaw e c pk bme ens =
        Some (num_mul e (num_sub e (Fin v)
             (Fin (Max {x. \<exists>k \<in> {pk, ''Random Forest'', ''XGBoost''}.
                 get (get bme k) (if c then ''accuracy'' else ''r2_score'') = JNum (Fin x)})))
             (Fin 100)) \<and>
      (fl e (v - Max {x. \<exists>k \<in> {pk, ''Random Forest'', ''XGBoost''}.
                 get (get bme k) (if c then ''accuracy'' else ''r2_score'') = JNum (Fin x)}) = Fin sd \<and>
       fl e (sd * 100) = Fin td \<longrightarrow>
         num_mul e (num_sub e (Fin v)
             (Fin (Max {x. \<exists>k \<in> {pk, ''Random Forest'', ''XGBoost''}.
                 get (get bme k) (if c then ''accuracy'' else ''r2_score'') = JNum (Fin x)})))
             (Fin 100) = Fin td \<and>
         (\<bar>sd - (v - Max {x. \<exists>k \<in> {pk, ''Random Forest'', ''XGBoost''}.
                 get (get bme k) (if c then ''accuracy'' else ''r2_score'') = JNum (Fin x)})\<bar> \<le> \<delta> \<and>
          \<bar>td - sd * 100\<bar> \<le> \<delta> \<longrightarrow>
           \<bar>td - (v - Max {x. \<exists>k \<in> {pk, ''Random Forest'', ''XGBoost''}.
                 get (get bme k) (if c then ''accuracy'' else ''r2_score'') = JNum (Fin x)}) * 100\<bar>
             \<le> 101 * \<delta>))"
      using D I machine_tolerance by blast
  qed
qed

lemma ex_real_mult: "c \<noteq> 0 \<Longrightarrow> \<exists>x::real. x * c = d"
  by (rule exI [of _ "d / c"]) simp

lemma loan_stacking_metrics:
  "metricsOf (stackingOf loanResults) = JObj
                      [(''Random Forest'',
                          JObj [(''accuracy'', JNum (Fin 0.75)), (''precision'', JNum (Fin 0.5)),
                                (''recall'', JNum (Fin 0.5)), (''f1_score'', JNum (Fin 0.5))]),
                       (''Stacking Ensemble'',
                          JObj [(''accuracy'', JNum (Fin 0.8125)), (''precision'', JNum (Fin 0.5)),
                                (''recall'', JNum (Fin 0.5)), (''f1_score'', JNum (Fin 0.5))])]"
  by (simp add: metricsOf_def stackingOf_def loanResults_def get_def orElse_def)

lemma loan_voting_base:
  "mapBase (metricsOf (votingOf loanResults)) =
     [(''Logistic Regression'',
         JObj [(''accuracy'', JNum (Fin 0.5)), (''precision'', JNum (Fin 0.25)),
               (''recall'', JNum (Fin 0.125)), (''f1_score'', JNum (Fin 0))]),
      (''Random Forest'',
         JObj [(''accuracy'', JNum (Fin 0.75)), (''precision'', JNum (Fin 0.5)),
               (''recall'', JNum (Fin 0.5)), (''f1_score'', JNum (Fin 0.5))])]"
  unfolding loan_voting_metrics
  by (simp add: mapBase_def mapBaseStep_def orElse_def keys_def lower_logistic lower_forest
      lower_voting str_includes_def setProp_def metricsEntry_def get_def coalesce_def)

lemma loan_stacking_base:
  "mapBase (metricsOf (stackingOf loanResults)) =
     [(''Random Forest'',
         JObj [(''accuracy'', JNum (Fin 0.75)), (''precision'', JNum (Fin 0.5)),
               (''recall'', JNum (Fin 0.5)), (''f1_score'', JNum (Fin 0.5))])]"
  unfolding loan_stacking_metrics
  by (simp add: mapBase_def mapBaseStep_def orElse_def keys_def lower_forest
      lower_stacking str_includes_def setProp_def metricsEntry_def get_def coalesce_def)

lemma loan_voting_best:
  "{x. \<exists>k \<in> set (keys (JObj (mapBase (metricsOf (votingOf loanResults))))).
        get (get (JObj (mapBase (metricsOf (votingOf loanResults)))) k) ''accuracy'' = JNum (Fin x)} =
   {0.5, 0.75}"
  unfolding loan_voting_base by (auto simp: keys_def get_def)

lemma loan_stacking_best:
  "{x. \<exists>k \<in> set (keys (JObj (mapBase (metricsOf (stackingOf loanResults))))).
        get (get (JObj (mapBase (metricsOf (stackingOf loanResults)))) k) ''accuracy'' = JNum (Fin x)} =
   {0.75}"
  unfolding loan_stacking_base by (auto simp: keys_def get_def)

lemma dashboard_best:
  "{x. \<exists>k \<in> {''Linear Regression'', ''Random Forest'', ''XGBoost''}.
        get (get dashboardBase k) ''r2_score'' = JNum (Fin x)} = {0.5, 0.75, 0.625}"
  by (auto simp: dashboardBase_def get_def)

theorem improvement_over_best_base_witness:
  "get (get (get (classificationResults bareEnv ''loan'' [''id''] 0 loanResults) ''voting'')
        ''ensemble_performance'') ''raw_improvement'' = JNum (Fin 12.5)
   \<and> get (get (get (classificationResults bareEnv ''loan'' [''id''] 0 loanResults) ''voting'')
        ''ensemble_performance'') ''improvement_over_best_base'' =
       JStr (toFixed1 bareEnv 12.5 @ ''%'')
   \<and> get (get (get (classificationResults bareEnv ''loan'' [''id''] 0 loanResults) ''stacking'')
        ''meta_model_performance'') ''raw_improvement'' = JNum (Fin 6.25)
   \<and> improvementRaw bareEnv False ''Linear Regression'' dashboardBase dashboardEnsemble =
       Some (Fin 12.5)"
proof -
  note T = improvement_over_best_base [where py = loanResults and e = bareEnv and d = "''loan''"
      and h = "[''id'']" and n = 0 and a = "0.875" and b = "0.8125"
      and sv = "0.125" and tv = "12.5" and ss = "0.0625" and ts = "6.25"
      and sd = "0.125" and td = "12.5" and \<delta> = 0
      and ens = dashboardEnsemble and c = False and v = "0.875"
      and pk = "''Linear Regression''" and bme = dashboardBase, unfolded Let_def]
  have vb: "get (get (classificationResults bareEnv ''loan'' [''id''] 0 loanResults) ''voting'')
      ''base_models'' = JObj (mapBase (metricsOf (votingOf loanResults)))"
    by (rule voting_base_models)
  have sb: "get (get (classificationResults bareEnv ''loan'' [''id''] 0 loanResults) ''stacking'')
      ''base_models'' = JObj (mapBase (metricsOf (stackingOf loanResults)))"
    by (rule stacking_base_models)
  have h1: "get (get (metricsOf (votingOf loanResults)) ''Voting Ensemble'') ''accuracy'' = JNum (Fin 0.875) \<and>
    keys (get (get (classificationResults bareEnv ''loan'' [''id''] 0 loanResults) ''voting'') ''base_models'') \<noteq> [] \<and>
    (\<forall>k \<in> set (keys (get (get (classificationResults bareEnv ''loan'' [''id''] 0 loanResults) ''voting'') ''base_models'')).
        \<exists>x. get (get (get (get (classificationResults bareEnv ''loan'' [''id''] 0 loanResults) ''voting'') ''base_models'') k) ''accuracy'' = JNum (Fin x))"
    unfolding vb loan_voting_base by (simp add: loan_voting_metrics get_def keys_def ex_real_mult)
  have h2: "get (get (metricsOf (stackingOf loanResults)) ''Stacking Ensemble'') ''accuracy'' = JNum (Fin 0.8125) \<and>
    keys (get (get (classificationResults bareEnv ''loan'' [''id''] 0 loanResults) ''stacking'') ''base_models'') \<noteq> [] \<and>
    (\<forall>k \<in> set (keys (get (get (classificationResults bareEnv ''loan'' [''id''] 0 loanResults) ''stacking'') ''base_models'')).
        \<exists>x. get (get (get (get (classificationResults bareEnv ''loan'' [''id''] 0 loanResults) ''stacking'') ''base_models'') k) ''accuracy'' = JNum (Fin x))"
    unfolding sb loan_stacking_base by (simp add: loan_stacking_metrics get_def keys_def ex_real_mult)
  have h3: "\<not> isNumber (get dashboardEnsemble ''raw_improvement'') \<and>
       get dashboardEnsemble (if False then ''accuracy'' else ''r2_score'') = JNum (Fin 0.875) \<and>
       (\<exists>k \<in> {''Linear Regression'', ''Random Forest'', ''XGBoost''}.
           \<exists>x. get (get dashboardBase k) (if False then ''accuracy'' else ''r2_score'') = JNum (Fin x)) \<and>
       (\<forall>k \<in> {''Linear Regression'', ''Random Forest'', ''XGBoost''}.
           get (get dashboardBase k) (if False then ''accuracy'' else ''r2_score'') \<noteq> JNum PosInf \<and>
           get (get dashboardBase k) (if False then ''accuracy'' else ''r2_score'') \<noteq> JNum NegInf)"
    by (simp add: dashboardEnsemble_def dashboardBase_def get_def ex_real_mult)
  have f: "fl bareEnv = Fin" by (simp add: bareEnv_def)
  note c1 = T [THEN conjunct1, THEN mp, OF h1, unfolded vb loan_voting_best]
  note c2 = T [THEN conjunct2, THEN conjunct1, THEN mp, OF h2, unfolded sb loan_stacking_best]
  note c3 = T [THEN conjunct2, THEN conjunct2, THEN mp, OF h3]
  have 1: "get (get (get (classificationResults bareEnv ''loan'' [''id''] 0 loanResults) ''voting'')
        ''ensemble_performance'') ''raw_improvement'' = JNum (Fin 12.5)"
    using c1 [THEN conjunct2, THEN conjunct1] by (simp add: f)
  have 2: "get (get (get (classificationResults bareEnv ''loan'' [''id''] 0 loanResults) ''voting'')
        ''ensemble_performance'') ''improvement_over_best_base'' =
       JStr (toFixed1 bareEnv 12.5 @ ''%'')"
    using c1 [THEN conjunct2, THEN conjunct2, THEN conjunct1] by (simp add: f)
  have 3: "get (get (get (classificationResults bareEnv ''loan'' [''id''] 0 loanResults) ''stacking'')
        ''meta_model_performance'') ''raw_improvement'' = JNum (Fin 6.25)"
    using c2 [THEN conjunct2, THEN conjunct1] by (simp add: f)
  have 4: "improvementRaw bareEnv False ''Linear Regression'' dashboardBase dashboardEnsemble =
       Some (Fin 12.5)"
    using c3 [THEN conjunct2, THEN conjunct1] dashboard_best by (simp add: f)
  from 1 2 3 4 show ?thesis by simp
qed

text \<open>
  Claim C2 as stated fails: the result is a normalised classification result, the
  accuracy of the ensemble is \<open>0.875\<close> and the base model \<open>Logistic Regression\<close> has the
  accuracy \<open>0.75\<close>, but the accuracy of \<open>Random Forest\<close> is the text \<open>n/a\<close>, which is
  kept as it is. \<open>Math.max\<close> makes it \<open>NaN\<close>: \<open>raw_improvement\<close> is \<open>NaN\<close>, not \<open>12.5\<close>, and
  \<open>improvement_over_best_base\<close> is \<open>0%\<close>.
\<close>

theorem text_accuracy_counterexample:
  "normalise bareEnv ''loan'' [''id''] 0 naResults =
     Inr (classificationResults bareEnv ''loan'' [''id''] 0 naResults)
   \<and> get (get (get (get (classificationResults bareEnv ''loan'' [''id''] 0 naResults)
        ''voting'') ''base_models'') ''Logistic Regression'') ''accuracy'' = JNum (Fin 0.75)
   \<and> get (get (get (get (classificationResults bareEnv ''loan'' [''id''] 0 naResults)
        ''voting'') ''base_models'') ''Random Forest'') ''accuracy'' = JStr ''n/a''
   \<and> get (get (get (classificationResults bareEnv ''loan'' [''id''] 0 naResults) ''voting'')
        ''ensemble_performance'') ''accuracy'' = JNum (Fin 0.875)
   \<and> get (get (get (classificationResults bareEnv ''loan'' [''id''] 0 naResults) ''voting'')
        ''ensemble_performance'') ''raw_improvement'' = JNum NaN
   \<and> get (get (get (classificationResults bareEnv ''loan'' [''id''] 0 naResults) ''voting'')
        ''ensemble_performance'') ''improvement_over_best_base'' = JStr ''0%''"
proof -
  have n: "normalise bareEnv ''loan'' [''id''] 0 naResults =
     Inr (classificationResults bareEnv ''loan'' [''id''] 0 naResults)"
    by (simp add: normalise_def ensureDatasetInfo_def naResults_def get_def)
  have m: "metricsOf (votingOf naResults) =
      JObj [(''Logistic Regression'', JObj [(''accuracy'', JNum (Fin 0.75))]),
            (''Random Forest'', JObj [(''accuracy'', JStr ''n/a'')]),
            (''Voting Ensemble'', JObj [(''accuracy'', JNum (Fin 0.875))])]"
    by (simp add: metricsOf_def votingOf_def naResults_def get_def orElse_def)
  have b: "mapBase (JObj [(''Logistic Regression'', JObj [(''accuracy'', JNum (Fin 0.75))]),
            (''Random Forest'', JObj [(''accuracy'', JStr ''n/a'')]),
            (''Voting Ensemble'', JObj [(''accuracy'', JNum (Fin 0.875))])]) =
      [(''Logistic Regression'',
          JObj [(''accuracy'', JNum (Fin 0.75)), (''precision'', JNum (Fin 0)),
                (''recall'', JNum (Fin 0)), (''f1_score'', JNum (Fin 0))]),
       (''Random Forest'',
          JObj [(''accuracy'', JStr ''n/a''), (''precision'', JNum (Fin 0)),
                (''recall'', JNum (Fin 0)), (''f1_score'', JNum (Fin 0))])]"
    by (simp add: mapBase_def mapBaseStep_def orElse_def keys_def lower_logistic lower_forest
        lower_voting str_includes_def setProp_def metricsEntry_def get_def coalesce_def)
  have p: "performance bareEnv
      (orElse (get (JObj [(''Logistic Regression'', JObj [(''accuracy'', JNum (Fin 0.75))]),
            (''Random Forest'', JObj [(''accuracy'', JStr ''n/a'')]),
            (''Voting Ensemble'', JObj [(''accuracy'', JNum (Fin 0.875))])]) ''Voting Ensemble'')
         (JObj []))
      [(''Logistic Regression'',
          JObj [(''accuracy'', JNum (Fin 0.75)), (''precision'', JNum (Fin 0)),
                (''recall'', JNum (Fin 0)), (''f1_score'', JNum (Fin 0))]),
       (''Random Forest'',
          JObj [(''accuracy'', JStr ''n/a''), (''precision'', JNum (Fin 0)),
                (''recall'', JNum (Fin 0)), (''f1_score'', JNum (Fin 0))])] =
      JObj [(''accuracy'', JNum (Fin 0.875)), (''precision'', JNum (Fin 0)),
            (''recall'', JNum (Fin 0)), (''f1_score'', JNum (Fin 0)),
            (''improvement_over_best_base'', JStr ''0%''), (''raw_improvement'', JNum NaN)]"
    by (simp add: performance_def impRaw_def bestBase_def get_def orElse_def bareEnv_def
        fmtImp_def coalesce_def)
  show ?thesis
    unfolding voting_base_models voting_performance m b p using n
    by (simp add: get_def)
qed


section \<open>The promise of executePythonScript\<close>

lemma getNumberEnv_positive: "0 < fallback \<Longrightarrow> 0 < getNumberEnv e name fallback"
  by (simp add: getNumberEnv_def split: option.splits jsnum.splits)

lemma stdout_limit_positive: "0 < PYTHON_STDOUT_MAX_BYTES e"
  using getNumberEnv_positive [of 5 e "''PYTHON_STDOUT_MAX_MB''"]
  by (simp add: PYTHON_STDOUT_MAX_BYTES_def)

lemma stdoutOf_append: "stdoutOf (xs @ ys) = stdoutOf xs @ stdoutOf ys"
  by (induction xs rule: stdoutOf.induct) simp_all

lemma stderrOf_append: "stderrOf (xs @ ys) = stderrOf xs @ stderrOf ys"
  by (induction xs rule: stderrOf.induct) simp_all

lemma completed_absorbs: "completed st \<Longrightarrow> foldl (handle e) st evs = st"
proof (induction evs)
  case Nil
  show ?case by simp
next
  case (Cons ev evs)
  then have "handle e st ev = st" by (cases ev) simp_all
  with Cons show ?case by simp
qed

lemma quiet_from:
  assumes "\<not> completed st" "list_all isData pre"
    "real (length (stdout st @ stdoutOf pre)) \<le> PYTHON_STDOUT_MAX_BYTES e"
  shows "foldl (handle e) st pre =
         st\<lparr>stdout := stdout st @ stdoutOf pre, stderr := stderr st @ stderrOf pre\<rparr>"
  using assms
proof (induction pre arbitrary: st)
  case Nil
  show ?case by simp
next
  case (Cons ev pre)
  show ?case
  proof (cases ev)
    case (StdoutData d)
    let ?st = "st\<lparr>stdout := stdout st @ d\<rparr>"
    from Cons.prems StdoutData
    have le: "real (length (stdout st @ d)) \<le> PYTHON_STDOUT_MAX_BYTES e" by simp
    with Cons.prems(1) StdoutData have step: "handle e st ev = ?st" by (simp add: Let_def)
    have "foldl (handle e) ?st pre =
        ?st\<lparr>stdout := stdout ?st @ stdoutOf pre, stderr := stderr ?st @ stderrOf pre\<rparr>"
      using Cons.prems StdoutData by (intro Cons.IH) simp_all
    with step StdoutData show ?thesis by simp
  next
    case (StderrData d)
    let ?st = "st\<lparr>stderr := stderr st @ d\<rparr>"
    from Cons.prems(1) StderrData have step: "handle e st ev = ?st" by simp
    have "foldl (handle e) ?st pre =
        ?st\<lparr>stdout := stdout ?st @ stdoutOf pre, stderr := stderr ?st @ stderrOf pre\<rparr>"
      using Cons.prems StderrData by (intro Cons.IH) simp_all
    with step StderrData show ?thesis by simp
  qed (use Cons.prems in simp_all)
qed

lemma run_quiet:
  "quiet e pre \<Longrightarrow> run e pre = initial\<lparr>stdout := stdoutOf pre, stderr := stderrOf pre\<rparr>"
  using quiet_from [of initial pre e] by (simp add: quiet_def run_def initial_def)

lemma run_completion:
  assumes "quiet e pre" "completed (handle e (run e pre) ev)"
  shows "executePythonScript e (pre @ ev # post) = handle e (run e pre) ev"
proof -
  have "executePythonScript e (pre @ ev # post) =
      foldl (handle e) (handle e (run e pre) ev) (post @ [Timeout])"
    by (simp add: executePythonScript_def run_def)
  then show ?thesis using assms(2) by (simp only: completed_absorbs)
qed

lemma quiet_snoc:
  "quiet e (xs @ [x]) \<longleftrightarrow>
     quiet e xs \<and> isData x \<and> real (length (stdoutOf xs @ stdoutOf [x])) \<le> PYTHON_STDOUT_MAX_BYTES e"
  by (auto simp: quiet_def stdoutOf_append)

lemma first_completion:
  "\<not> quiet e evs \<Longrightarrow>
     \<exists>pre ev post. evs = pre @ ev # post \<and> quiet e pre \<and>
       (\<not> isData ev \<or>
        (\<exists>d. ev = StdoutData d \<and> real (length (stdoutOf pre @ d)) > PYTHON_STDOUT_MAX_BYTES e))"
proof (induction evs rule: rev_induct)
  case Nil
  then show ?case using stdout_limit_positive [of e] by (simp add: quiet_def)
next
  case (snoc x xs)
  show ?case
  proof (cases "quiet e xs")
    case False
    from snoc.IH [OF False] obtain pre ev post where
      "xs = pre @ ev # post" "quiet e pre"
      "\<not> isData ev \<or> (\<exists>d. ev = StdoutData d \<and> real (length (stdoutOf pre @ d)) > PYTHON_STDOUT_MAX_BYTES e)"
      by blast
    then have "xs @ [x] = pre @ ev # (post @ [x])" by simp
    with \<open>quiet e pre\<close> \<open>\<not> isData ev \<or> _\<close> show ?thesis by blast
  next
    case True
    with snoc.prems have x: "\<not> isData x \<or>
        \<not> real (length (stdoutOf xs @ stdoutOf [x])) \<le> PYTHON_STDOUT_MAX_BYTES e"
      by (simp add: quiet_snoc)
    have "\<not> isData x \<or> (\<exists>d. x = StdoutData d \<and> real (length (stdoutOf xs @ d)) > PYTHON_STDOUT_MAX_BYTES e)"
    proof (cases x)
      case (StdoutData d)
      with x show ?thesis by simp
    next
      case (StderrData d)
      with x True show ?thesis by (simp add: quiet_def)
    qed simp_all
    with True show ?thesis by blast
  qed
qed

text \<open>The five ways a run ends, each after a stretch of events that completes nothing.\<close>

lemma ends_with_close:
  assumes "quiet e pre"
  shows "executePythonScript e (pre @ Close code # post) =
     initial\<lparr>stdout := stdoutOf pre, stderr := stderrOf pre, completed := True,
       timerCleared := True,
       settled := [if code \<noteq> Some 0
         then Rejected (''Python script exited with code '' @ showCode code @ '': '' @
                (if stderrOf pre = [] then ''No stderr output'' else stderrOf pre))
         else Resolved (stdoutOf pre)]\<rparr>"
proof -
  have "completed (handle e (run e pre) (Close code))" by simp
  from run_completion [OF assms this, of post] show ?thesis
    by (simp add: run_quiet [OF assms] initial_def)
qed

lemma ends_with_timeout:
  assumes "quiet e pre"
  shows "executePythonScript e (pre @ Timeout # post) =
     initial\<lparr>stdout := stdoutOf pre, stderr := stderrOf pre, completed := True, kills := 1,
       settled := [Rejected (''Python script timed out after '' @
                      numberToString e (PYTHON_TIMEOUT_MS e) @ '' ms'')]\<rparr>"
proof -
  have "completed (handle e (run e pre) Timeout)" by simp
  from run_completion [OF assms this, of post] show ?thesis
    by (simp add: run_quiet [OF assms] initial_def)
qed

lemma ends_with_error:
  assumes "quiet e pre"
  shows "executePythonScript e (pre @ ProcError msg # post) =
     initial\<lparr>stdout := stdoutOf pre, stderr := stderrOf pre, completed := True,
       timerCleared := True,
       settled := [Rejected (''Failed to start Python process: '' @ msg)]\<rparr>"
proof -
  have "completed (handle e (run e pre) (ProcError msg))" by simp
  from run_completion [OF assms this, of post] show ?thesis
    by (simp add: run_quiet [OF assms] initial_def)
qed

lemma ends_with_overflow:
  assumes "quiet e pre" "real (length (stdoutOf pre @ d)) > PYTHON_STDOUT_MAX_BYTES e"
  shows "executePythonScript e (pre @ StdoutData d # post) =
     initial\<lparr>stdout := stdoutOf pre @ d, stderr := stderrOf pre, completed := True, kills := 1,
       timerCleared := True,
       settled := [Rejected ''Python script output exceeded allowed size limit'']\<rparr>"
proof -
  have h: "handle e (run e pre) (StdoutData d) =
     initial\<lparr>stdout := stdoutOf pre @ d, stderr := stderrOf pre, completed := True, kills := 1,
       timerCleared := True,
       settled := [Rejected ''Python script output exceeded allowed size limit'']\<rparr>"
    using assms(2) by (simp add: run_quiet [OF assms(1)] initial_def Let_def)
  then have "completed (handle e (run e pre) (StdoutData d))" by simp
  from run_completion [OF assms(1) this, of post] h show ?thesis by simp
qed

lemma ends_quietly:
  assumes "quiet e evs"
  shows "executePythonScript e evs =
     initial\<lparr>stdout := stdoutOf evs, stderr := stderrOf evs, completed := True, kills := 1,
       settled := [Rejected (''Python script timed out after '' @
                      numberToString e (PYTHON_TIMEOUT_MS e) @ '' ms'')]\<rparr>"
proof -
  have "evs @ [Timeout] = evs @ Timeout # []" by simp
  have "executePythonScript e (evs @ Timeout # []) = run e ((evs @ [Timeout]) @ [Timeout])"
    by (simp add: executePythonScript_def)
  also have "\<dots> = foldl (handle e) (run e (evs @ [Timeout])) [Timeout]"
    by (simp only: run_def foldl_append)
  also have "\<dots> = run e (evs @ [Timeout])"
    by (simp add: run_def)
  finally have "executePythonScript e evs = executePythonScript e (evs @ Timeout # [])"
    by (simp add: executePythonScript_def)
  then show ?thesis by (simp only: ends_with_timeout [OF assms])
qed


lemma settled_once:
  "length (settled (executePythonScript e evs)) = 1"
proof (cases "quiet e evs")
  case True
  then show ?thesis by (simp add: ends_quietly initial_def)
next
  case False
  from first_completion [OF False] obtain pre ev post where
    evs: "evs = pre @ ev # post" and q: "quiet e pre" and
    t: "\<not> isData ev \<or> (\<exists>d. ev = StdoutData d \<and> real (length (stdoutOf pre @ d)) > PYTHON_STDOUT_MAX_BYTES e)"
    by blast
  show ?thesis
  proof (cases ev)
    case Timeout
    then show ?thesis using evs q by (simp add: ends_with_timeout initial_def)
  next
    case (StdoutData d)
    then show ?thesis using evs q t by (simp add: ends_with_overflow initial_def)
  next
    case (StderrData d)
    then show ?thesis using t by simp
  next
    case (Close code)
    then show ?thesis using evs q by (simp add: ends_with_close initial_def)
  next
    case (ProcError msg)
    then show ?thesis using evs q by (simp add: ends_with_error initial_def)
  qed
qed

lemma resolved_only_by_close:
  assumes "promised (executePythonScript e evs) = Some (Resolved out)"
  shows "\<exists>pre post. evs = pre @ Close (Some 0) # post \<and> quiet e pre \<and> out = stdoutOf pre"
proof (cases "quiet e evs")
  case True
  with assms show ?thesis by (simp add: ends_quietly initial_def promised_def)
next
  case False
  from first_completion [OF False] obtain pre ev post where
    evs: "evs = pre @ ev # post" and q: "quiet e pre" and
    t: "\<not> isData ev \<or> (\<exists>d. ev = StdoutData d \<and> real (length (stdoutOf pre @ d)) > PYTHON_STDOUT_MAX_BYTES e)"
    by blast
  show ?thesis
  proof (cases ev)
    case Timeout
    then show ?thesis using evs q assms by (simp add: ends_with_timeout initial_def promised_def)
  next
    case (StdoutData d)
    then show ?thesis using evs q t assms
      by (simp add: ends_with_overflow initial_def promised_def)
  next
    case (StderrData d)
    then show ?thesis using t by simp
  next
    case (Close code)
    with evs q assms have "code = Some 0 \<and> out = stdoutOf pre"
      by (simp add: ends_with_close initial_def promised_def split: if_splits)
    with Close evs q show ?thesis by blast
  next
    case (ProcError msg)
    then show ?thesis using evs q assms by (simp add: ends_with_error initial_def promised_def)
  qed
qed

text \<open>
  Claim C5 (amended). Whatever the child does, the promise of \<open>executePythonScript\<close> is
  settled exactly once. It resolves, with the output accumulated so far, exactly when the
  first event that completes the run is a \<open>close\<close> with exit code 0: every event before it
  is output, and the length of the accumulated text, counted in code units as
  \<open>stdout.length\<close> counts it, is within the limit. It rejects when that first event is a
  \<open>close\<close> with another code (the message carries the code and the text of the error
  stream, or \<open>No stderr output\<close>), the timer (the child is killed), output whose length
  in code units goes beyond the limit (the child is killed), or an \<open>error\<close> event of the
  child; and when nothing completes the run, the timer does.
\<close>

theorem python_promise:
  "length (settled (executePythonScript e evs)) = 1
   \<and> (promised (executePythonScript e evs) = Some (Resolved out) \<longleftrightarrow>
        (\<exists>pre post. evs = pre @ Close (Some 0) # post \<and> quiet e pre \<and> out = stdoutOf pre))
   \<and> (quiet e pre \<and> code \<noteq> Some 0 \<longrightarrow>
        promised (executePythonScript e (pre @ Close code # post)) =
          Some (Rejected (''Python script exited with code '' @ showCode code @ '': '' @
                  (if stderrOf pre = [] then ''No stderr output'' else stderrOf pre))))
   \<and> (quiet e pre \<longrightarrow>
        promised (executePythonScript e (pre @ Timeout # post)) =
          Some (Rejected (''Python script timed out after '' @
                  numberToString e (PYTHON_TIMEOUT_MS e) @ '' ms'')) \<and>
        kills (executePythonScript e (pre @ Timeout # post)) = 1)
   \<and> (quiet e pre \<and> real (length (stdoutOf pre @ d)) > PYTHON_STDOUT_MAX_BYTES e \<longrightarrow>
        promised (executePythonScript e (pre @ StdoutData d # post)) =
          Some (Rejected ''Python script output exceeded allowed size limit'') \<and>
        kills (executePythonScript e (pre @ StdoutData d # post)) = 1)
   \<and> (quiet e pre \<longrightarrow>
        promised (executePythonScript e (pre @ ProcError msg # post)) =
          Some (Rejected (''Failed to start Python process: '' @ msg)))
   \<and> (quiet e evs \<longrightarrow>
        promised (executePythonScript e evs) =
          Some (Rejected (''Python script timed out after '' @
                  numberToString e (PYTHON_TIMEOUT_MS e) @ '' ms'')) \<and>
        kills (executePythonScript e evs) = 1)"
proof (intro conjI impI iffI)
  show "length (settled (executePythonScript e evs)) = 1" by (rule settled_once)
next
  assume "promised (executePythonScript e evs) = Some (Resolved out)"
  then show "\<exists>pre post. evs = pre @ Close (Some 0) # post \<and> quiet e pre \<and> out = stdoutOf pre"
    by (rule resolved_only_by_close)
next
  assume "\<exists>pre post. evs = pre @ Close (Some 0) # post \<and> quiet e pre \<and> out = stdoutOf pre"
  then show "promised (executePythonScript e evs) = Some (Resolved out)"
    by (auto simp: ends_with_close initial_def promised_def)
next
  assume "quiet e pre \<and> code \<noteq> Some 0"
  then show "promised (executePythonScript e (pre @ Close code # post)) =
          Some (Rejected (''Python script exited with code '' @ showCode code @ '': '' @
                  (if stderrOf pre = [] then ''No stderr output'' else stderrOf pre)))"
    by (simp add: ends_with_close initial_def promised_def)
next
  assume q: "quiet e pre"
  then show "promised (executePythonScript e (pre @ Timeout # post)) =
          Some (Rejected (''Python script timed out after '' @
                  numberToString e (PYTHON_TIMEOUT_MS e) @ '' ms''))"
    by (simp add: ends_with_timeout initial_def promised_def)
  from q show "kills (executePythonScript e (pre @ Timeout # post)) = 1"
    by (simp add: ends_with_timeout initial_def)
next
  assume q: "quiet e pre \<and> real (length (stdoutOf pre @ d)) > PYTHON_STDOUT_MAX_BYTES e"
  then show "promised (executePythonScript e (pre @ StdoutData d # post)) =
          Some (Rejected ''Python script output exceeded allowed size limit'')"
    by (simp add: ends_with_overflow initial_def promised_def)
  from q show "kills (executePythonScript e (pre @ StdoutData d # post)) = 1"
    by (simp add: ends_with_overflow initial_def)
next
  assume "quiet e pre"
  then show "promised (executePythonScript e (pre @ ProcError msg # post)) =
          Some (Rejected (''Failed to start Python process: '' @ msg))"
    by (simp add: ends_with_error initial_def promised_def)
next
  assume q: "quiet e evs"
  then show "promised (executePythonScript e evs) =
          Some (Rejected (''Python script timed out after '' @
                  numberToString e (PYTHON_TIMEOUT_MS e) @ '' ms''))"
    by (simp add: ends_quietly initial_def promised_def)
  from q show "kills (executePythonScript e evs) = 1"
    by (simp add: ends_quietly initial_def)
qed

lemma showNat_1: "showNat (Suc 0) = ''1''"
  by (subst showNat.simps) (simp add: digitChar_def)

lemma bare_limit: "PYTHON_STDOUT_MAX_BYTES bareEnv = 5242880"
  by (simp add: PYTHON_STDOUT_MAX_BYTES_def getNumberEnv_def bareEnv_def)

lemma tiny_limit: "PYTHON_STDOUT_MAX_BYTES tinyLimit = 1.048576"
  by (simp add: PYTHON_STDOUT_MAX_BYTES_def getNumberEnv_def tinyLimit_def bareEnv_def)

lemma bare_timeout: "numberToString bareEnv (PYTHON_TIMEOUT_MS bareEnv) = ''120000''"
  by (simp add: PYTHON_TIMEOUT_MS_def getNumberEnv_def bareEnv_def)

theorem python_promise_witness:
  "promised (executePythonScript bareEnv [StdoutData ''{}'', Close (Some 0)]) = Some (Resolved ''{}'')
   \<and> promised (executePythonScript bareEnv [StderrData ''boom'', Close (Some 1)]) =
       Some (Rejected ''Python script exited with code 1: boom'')
   \<and> promised (executePythonScript bareEnv [Timeout, Close None]) =
       Some (Rejected ''Python script timed out after 120000 ms'')
   \<and> promised (executePythonScript tinyLimit [StdoutData ''ab'', Close (Some 0)]) =
       Some (Rejected ''Python script output exceeded allowed size limit'')
   \<and> promised (executePythonScript bareEnv [ProcError ''spawn python ENOENT'']) =
       Some (Rejected ''Failed to start Python process: spawn python ENOENT'')
   \<and> promised (executePythonScript bareEnv [StdoutData ''working'']) =
       Some (Rejected ''Python script timed out after 120000 ms'')"
proof -
  have q0: "quiet bareEnv []" "quiet tinyLimit []"
    by (simp_all add: quiet_def bare_limit tiny_limit)
  have q1: "quiet bareEnv [StdoutData ''{}'']" "quiet bareEnv [StderrData ''boom'']"
    "quiet bareEnv [StdoutData ''working'']"
    by (simp_all add: quiet_def bare_limit)
  have "\<exists>pre post. [StdoutData ''{}'', Close (Some 0)] = pre @ Close (Some 0) # post \<and>
      quiet bareEnv pre \<and> ''{}'' = stdoutOf pre"
    using q1(1) by (intro exI [of _ "[StdoutData ''{}'']"] exI [of _ "[]"]) simp
  then have 1: "promised (executePythonScript bareEnv [StdoutData ''{}'', Close (Some 0)]) =
      Some (Resolved ''{}'')"
    using python_promise [where e = bareEnv and evs = "[StdoutData ''{}'', Close (Some 0)]"
        and out = "''{}''", THEN conjunct2, THEN conjunct1] by blast
  have 2: "promised (executePythonScript bareEnv [StderrData ''boom'', Close (Some 1)]) =
       Some (Rejected ''Python script exited with code 1: boom'')"
    using python_promise [where e = bareEnv and pre = "[StderrData ''boom'']" and code = "Some 1"
        and post = "[]", THEN conjunct2, THEN conjunct2, THEN conjunct1] q1(2)
    by (simp add: showCode_def showInt_def showNat_1)
  have 3: "promised (executePythonScript bareEnv [Timeout, Close None]) =
       Some (Rejected ''Python script timed out after 120000 ms'')"
    using python_promise [where e = bareEnv and pre = "[]" and post = "[Close None]",
        THEN conjunct2, THEN conjunct2, THEN conjunct2, THEN conjunct1] q0(1)
    by (simp add: bare_timeout)
  have 4: "promised (executePythonScript tinyLimit [StdoutData ''ab'', Close (Some 0)]) =
       Some (Rejected ''Python script output exceeded allowed size limit'')"
    using python_promise [where e = tinyLimit and pre = "[]" and d = "''ab''"
        and post = "[Close (Some 0)]",
        THEN conjunct2, THEN conjunct2, THEN conjunct2, THEN conjunct2, THEN conjunct1] q0(2)
    by (simp add: tiny_limit)
  have 5: "promised (executePythonScript bareEnv [ProcError ''spawn python ENOENT'']) =
       Some (Rejected ''Failed to start Python process: spawn python ENOENT'')"
    using python_promise [where e = bareEnv and pre = "[]" and msg = "''spawn python ENOENT''"
        and post = "[]",
        THEN conjunct2, THEN conjunct2, THEN conjunct2, THEN conjunct2, THEN conjunct2,
        THEN conjunct1] q0(1)
    by simp
  have 6: "promised (executePythonScript bareEnv [StdoutData ''working'']) =
       Some (Rejected ''Python script timed out after 120000 ms'')"
    using python_promise [where e = bareEnv and evs = "[StdoutData ''working'']",
        THEN conjunct2, THEN conjunct2, THEN conjunct2, THEN conjunct2, THEN conjunct2,
        THEN conjunct2] q1(3)
    by (simp add: bare_timeout)
  from 1 2 3 4 5 6 show ?thesis by blast
qed

text \<open>
  Claim C5 as stated fails, the limit being taken in bytes: with a limit of 1.048576 bytes
  the child writes the one letter \<open>U+00E9\<close>, two bytes on the pipe, and closes with code 0.
  The text has length 1, the limit is not reached and the promise resolves.
\<close>

theorem byte_cap_counterexample:
  "utf8Length [CHR 0xE9] = 2
   \<and> PYTHON_STDOUT_MAX_BYTES tinyLimit = 1.048576
   \<and> PYTHON_STDOUT_MAX_BYTES tinyLimit < real (utf8Length [CHR 0xE9])
   \<and> promised (executePythonScript tinyLimit [StdoutData [CHR 0xE9], Close (Some 0)]) =
       Some (Resolved [CHR 0xE9])"
proof -
  have u: "utf8Length [CHR 0xE9] = 2" by (simp add: utf8Length_def)
  have q: "quiet tinyLimit [StdoutData [CHR 0xE9]]"
    by (simp add: quiet_def tiny_limit)
  have "executePythonScript tinyLimit ([StdoutData [CHR 0xE9]] @ Close (Some 0) # []) =
     initial\<lparr>stdout := stdoutOf [StdoutData [CHR 0xE9]],
       stderr := stderrOf [StdoutData [CHR 0xE9]], completed := True, timerCleared := True,
       settled := [if Some 0 \<noteq> Some (0::int)
         then Rejected (''Python script exited with code '' @ showCode (Some 0) @ '': '' @
                (if stderrOf [StdoutData [CHR 0xE9]] = [] then ''No stderr output''
                 else stderrOf [StdoutData [CHR 0xE9]]))
         else Resolved (stdoutOf [StdoutData [CHR 0xE9]])]\<rparr>"
    using q by (rule ends_with_close)
  then have "promised (executePythonScript tinyLimit [StdoutData [CHR 0xE9], Close (Some 0)]) =
       Some (Resolved [CHR 0xE9])"
    by (simp add: promised_def initial_def)
  with u show ?thesis by (simp add: tiny_limit)
qed

section \<open>Approximate RMSE and MAE in the dashboard\<close>

lemma regression_sample:
  "predictionsSample regressionData =
     [JObj [(''actual'', JNum (Fin 3)), (''predicted'', JNum (Fin 2)),
            (''linear_reg'', JNum (Fin 1)), (''random_forest'', JNum (Fin 3)),
            (''xgboost'', JNum (Fin 5))]]"
  by (simp add: predictionsSample_def regressionData_def get_def)

lemma regression_base:
  "baseModels regressionData =
     JObj [(''Linear Regression'', JObj [(''r2_score'', JNum (Fin 0.8))]),
           (''Random Forest'', JObj [(''r2_score'', JNum (Fin 0.85))]),
           (''XGBoost'', JObj [(''r2_score'', JNum (Fin 0.9))])]"
  by (simp add: baseModels_def regressionData_def get_def)

lemma regression_compute:
  "compute bareEnv (predictionsSample regressionData) ''linear_reg'' =
     JObj [(''rmse'', JNum (Fin 2)), (''mae'', JNum (Fin 2)), (''isApproximate'', JBool True)]"
  unfolding regression_sample
  by (simp add: compute_def get_def Let_def)

text \<open>
  Claim C3, at an input where the code departs from it. The linear model arrives without
  \<open>rmse\<close> and \<open>mae\<close> and there is one sampled prediction. \<open>compute\<close> derives both values
  from the sample and marks its result \<open>isApproximate\<close>; the entry of the enhanced base
  models takes the two values only, and the mark is gone. In the second input every model
  has its \<open>rmse\<close> and the linear model has no \<open>mae\<close>: nothing is derived.
\<close>

theorem approximate_flag_dropped:
  "compute bareEnv (predictionsSample regressionData) ''linear_reg'' =
     JObj [(''rmse'', JNum (Fin 2)), (''mae'', JNum (Fin 2)), (''isApproximate'', JBool True)]
   \<and> get (baseModelsEnhanced bareEnv False (baseModels regressionData) regressionData)
         ''Linear Regression'' =
       JObj [(''r2_score'', JNum (Fin 0.8)), (''rmse'', JNum (Fin 2)), (''mae'', JNum (Fin 2))]
   \<and> get (get (baseModelsEnhanced bareEnv False (baseModels regressionData) regressionData)
         ''Linear Regression'') ''isApproximate'' = JUndef
   \<and> get (get (baseModelsEnhanced bareEnv False (baseModels regressionDataNoMae)
         regressionDataNoMae) ''Linear Regression'') ''mae'' = JUndef"
proof -
  have c: "compute bareEnv (predictionsSample regressionData) ''linear_reg'' =
     JObj [(''rmse'', JNum (Fin 2)), (''mae'', JNum (Fin 2)), (''isApproximate'', JBool True)]"
    by (rule regression_compute)
  have e: "get (baseModelsEnhanced bareEnv False (baseModels regressionData) regressionData)
         ''Linear Regression'' =
       JObj [(''r2_score'', JNum (Fin 0.8)), (''rmse'', JNum (Fin 2)), (''mae'', JNum (Fin 2))]"
    unfolding baseModelsEnhanced_def Let_def c
    unfolding regression_base regression_sample
    by (simp add: needFix_def get_def setProp_def enhancedEntry_def coalesce_def)
  have b: "baseModels regressionDataNoMae =
     JObj [(''Linear Regression'', JObj [(''r2_score'', JNum (Fin 0.8)), (''rmse'', JNum (Fin 4))]),
           (''Random Forest'', JObj [(''rmse'', JNum (Fin 3)), (''mae'', JNum (Fin 2))]),
           (''XGBoost'', JObj [(''rmse'', JNum (Fin 3)), (''mae'', JNum (Fin 2))])]"
    by (simp add: baseModels_def regressionDataNoMae_def get_def)
  have n: "get (get (baseModelsEnhanced bareEnv False (baseModels regressionDataNoMae)
         regressionDataNoMae) ''Linear Regression'') ''mae'' = JUndef"
    unfolding b by (simp add: baseModelsEnhanced_def needFix_def get_def)
  from c e n show ?thesis by (simp add: get_def)
qed

text \<open>The first input does call for the derivation: a \<open>rmse\<close> is missing and the sample is
  not empty.\<close>

theorem approximate_flag_dropped_witness:
  "needFix (baseModels regressionData) \<and> predictionsSample regressionData \<noteq> []
   \<and> get (compute bareEnv (predictionsSample regressionData) ''linear_reg'') ''isApproximate'' =
       JBool True
   \<and> get (get (baseModelsEnhanced bareEnv False (baseModels regressionData) regressionData)
         ''Linear Regression'') ''isApproximate'' = JUndef"
proof -
  have "needFix (baseModels regressionData)"
    unfolding regression_base by (simp add: needFix_def get_def)
  moreover have "predictionsSample regressionData \<noteq> []"
    by (simp add: regression_sample)
  moreover have "get (compute bareEnv (predictionsSample regressionData) ''linear_reg'')
      ''isApproximate'' = JBool True"
    using approximate_flag_dropped [THEN conjunct1] by (simp add: get_def)
  moreover have "get (get (baseModelsEnhanced bareEnv False (baseModels regressionData)
      regressionData) ''Linear Regression'') ''isApproximate'' = JUndef"
    using approximate_flag_dropped [THEN conjunct2, THEN conjunct2, THEN conjunct1] .
  ultimately show ?thesis by blast
qed

section \<open>The dataset loader of the pipeline\<close>

lemma loadDataset_fails_iff:
  "loadDataset inferTask table target = Inl err \<longleftrightarrow>
     target \<notin> set (tableHeader table) \<or>
     (\<exists>row \<in> set (tableRows table). length row \<noteq> length (tableHeader table)) \<or>
     length (tableRows table) < MIN_VIABLE_ROWS"
  by (cases err) (auto simp: loadDataset_def list_ex_iff)

text \<open>
  Claim C4. For every raw table and target column, the loader as the specification
  describes it fails with \<open>DataFormatError\<close> exactly when the target column is absent, some
  row has another number of cells than the header, or there are fewer than 30 rows; in
  particular a table of 25 rows is rejected. In every other case it returns a dataset
  with one record per row.
\<close>

theorem loader_rejects_malformed_tables:
  "(target \<notin> set (tableHeader table) \<or>
    (\<exists>row \<in> set (tableRows table). length row \<noteq> length (tableHeader table)) \<or>
    length (tableRows table) < 30 \<longrightarrow>
      loadDataset inferTask table target = Inl DataFormatError)
   \<and> (length (tableRows table) = 25 \<longrightarrow>
      loadDataset inferTask table target = Inl DataFormatError)
   \<and> (target \<in> set (tableHeader table) \<and>
       (\<forall>row \<in> set (tableRows table). length row = length (tableHeader table)) \<and>
       30 \<le> length (tableRows table) \<longrightarrow>
      (\<exists>d. loadDataset inferTask table target = Inr d \<and>
           records d = map (zip (tableHeader table)) (tableRows table) \<and>
           targetColumn d = target))"
proof (intro conjI impI)
  assume "target \<notin> set (tableHeader table) \<or>
    (\<exists>row \<in> set (tableRows table). length row \<noteq> length (tableHeader table)) \<or>
    length (tableRows table) < 30"
  then show "loadDataset inferTask table target = Inl DataFormatError"
    by (simp add: loadDataset_fails_iff MIN_VIABLE_ROWS_def)
next
  assume "length (tableRows table) = 25"
  then show "loadDataset inferTask table target = Inl DataFormatError"
    by (simp add: loadDataset_fails_iff MIN_VIABLE_ROWS_def)
next
  assume "target \<in> set (tableHeader table) \<and>
       (\<forall>row \<in> set (tableRows table). length row = length (tableHeader table)) \<and>
       30 \<le> length (tableRows table)"
  then show "\<exists>d. loadDataset inferTask table target = Inr d \<and>
           records d = map (zip (tableHeader table)) (tableRows table) \<and>
           targetColumn d = target"
    by (auto simp: loadDataset_def list_ex_iff MIN_VIABLE_ROWS_def)
qed

theorem loader_rejects_malformed_tables_witness:
  "loadDataset (\<lambda>values. Regression) table25 ''strength'' = Inl DataFormatError
   \<and> loadDataset (\<lambda>values. Regression) table30 ''mpg'' = Inl DataFormatError
   \<and> (\<exists>d. loadDataset (\<lambda>values. Regression) table30 ''strength'' = Inr d \<and>
          length (records d) = 30 \<and> targetColumn d = ''strength'')"
proof -
  note A = loader_rejects_malformed_tables [where table = table25 and target = "''strength''"
      and inferTask = "\<lambda>values. Regression"]
  note B = loader_rejects_malformed_tables [where table = table30 and target = "''mpg''"
      and inferTask = "\<lambda>values. Regression"]
  note C = loader_rejects_malformed_tables [where table = table30 and target = "''strength''"
      and inferTask = "\<lambda>values. Regression"]
  have "length (tableRows table25) = 25" by (simp add: table25_def)
  with A [THEN conjunct2, THEN conjunct1]
  have 1: "loadDataset (\<lambda>values. Regression) table25 ''strength'' = Inl DataFormatError"
    by (rule mp)
  have "''mpg'' \<notin> set (tableHeader table30) \<or>
    (\<exists>row \<in> set (tableRows table30). length row \<noteq> length (tableHeader table30)) \<or>
    length (tableRows table30) < 30"
    by (simp add: table30_def)
  with B [THEN conjunct1]
  have 2: "loadDataset (\<lambda>values. Regression) table30 ''mpg'' = Inl DataFormatError"
    by (rule mp)
  have "''strength'' \<in> set (tableHeader table30) \<and>
       (\<forall>row \<in> set (tableRows table30). length row = length (tableHeader table30)) \<and>
       30 \<le> length (tableRows table30)"
    by (simp add: table30_def)
  with C [THEN conjunct2, THEN conjunct2]
  have "\<exists>d. loadDataset (\<lambda>values. Regression) table30 ''strength'' = Inr d \<and>
           records d = map (zip (tableHeader table30)) (tableRows table30) \<and>
           targetColumn d = ''strength''"
    by (rule mp)
  then have 3: "\<exists>d. loadDataset (\<lambda>values. Regression) table30 ''strength'' = Inr d \<and>
          length (records d) = 30 \<and> targetColumn d = ''strength''"
    by (auto simp: table30_def)
  from 1 2 3 show ?thesis by blast
qed

end
